theory Spec2Isabelle
  imports Complex_Main "HOL-Library.AList" "HOL-Library.Multiset"
begin

section \<open>Values, errors and dictionaries\<close>

text \<open>
  The housing model is Python: every raise is a value of \<open>error\<close>, every operation that can
  raise returns \<open>error + 'a\<close> with \<open>Inl\<close> the exception.  Python floats are read as real
  numbers (no rounding); the integer counters are \<open>nat\<close> or \<open>int\<close>.  \<open>NotReal\<close> is no
  exception of Python: it marks a value that the real numbers cannot hold and at which the
  model stops.
\<close>

datatype error = ValueError | TypeError | AttributeError | KeyError | ZeroDivisionError | NotReal

definition bindE :: "error + 'a \<Rightarrow> ('a \<Rightarrow> error + 'b) \<Rightarrow> error + 'b" where
  "bindE m f = (case m of Inl e \<Rightarrow> Inl e | Inr x \<Rightarrow> f x)"

text \<open>Float division \<open>a / b\<close>: Python raises ZeroDivisionError on a zero divisor.\<close>

definition fdiv :: "real \<Rightarrow> real \<Rightarrow> error + real" where
  "fdiv a b = (if b = 0 then Inl ZeroDivisionError else Inr (a / b))"

text \<open>
  Float power \<open>x ** y\<close>.  A positive base is the real power; \<open>0.0 ** y\<close> is 1 for \<open>y = 0\<close>,
  0 for a positive \<open>y\<close> and raises ZeroDivisionError for a negative one; a negative base
  with a whole exponent is the integer power, and with any other exponent Python returns a
  complex number: the model stops there with \<open>NotReal\<close>.
\<close>

definition fpow :: "real \<Rightarrow> real \<Rightarrow> error + real" where
  "fpow x y =
     (if 0 < x then Inr (x powr y)
      else if x = 0 then
        (if y = 0 then Inr 1 else if 0 < y then Inr 0 else Inl ZeroDivisionError)
      else if of_int \<lfloor>y\<rfloor> = y then Inr (x powi \<lfloor>y\<rfloor>)
      else Inl NotReal)"

text \<open>
  The distance of a parcel from the centre comes from \<open>scipy.spatial.distance\<close> and is a
  \<open>numpy.float64\<close>, and so is every number computed from it: transport cost, rents and
  prices of a parcel, and the maximum bid.  Arithmetic on a \<open>numpy.float64\<close> never raises: a
  division by zero gives \<open>inf\<close>, \<open>-inf\<close> or \<open>nan\<close> (and a warning).  \<open>npfloat\<close> is such a number:
  a real (no rounding, zero without sign) or one of the three special values, with the
  IEEE rules for them.
\<close>

datatype npfloat = Fin real | PInf | NInf | NaN

fun np_neg :: "npfloat \<Rightarrow> npfloat" where
  "np_neg (Fin a) = Fin (- a)"
| "np_neg PInf = NInf"
| "np_neg NInf = PInf"
| "np_neg NaN = NaN"

fun np_add :: "npfloat \<Rightarrow> npfloat \<Rightarrow> npfloat" where
  "np_add NaN y = NaN"
| "np_add x NaN = NaN"
| "np_add (Fin a) (Fin b) = Fin (a + b)"
| "np_add PInf NInf = NaN"
| "np_add NInf PInf = NaN"
| "np_add PInf y = PInf"
| "np_add x PInf = PInf"
| "np_add NInf y = NInf"
| "np_add x NInf = NInf"

definition np_sub :: "npfloat \<Rightarrow> npfloat \<Rightarrow> npfloat" where
  "np_sub x y = np_add x (np_neg y)"

text \<open>The product of \<open>inf\<close> or \<open>-inf\<close> with the real \<open>b\<close>.\<close>

definition inf_times :: "npfloat \<Rightarrow> real \<Rightarrow> npfloat" where
  "inf_times x b = (if 0 < b then x else if b < 0 then np_neg x else NaN)"

fun np_mul :: "npfloat \<Rightarrow> npfloat \<Rightarrow> npfloat" where
  "np_mul NaN y = NaN"
| "np_mul x NaN = NaN"
| "np_mul (Fin a) (Fin b) = Fin (a * b)"
| "np_mul (Fin a) y = inf_times y a"
| "np_mul x (Fin b) = inf_times x b"
| "np_mul PInf PInf = PInf"
| "np_mul PInf NInf = NInf"
| "np_mul NInf PInf = NInf"
| "np_mul NInf NInf = PInf"

fun np_div :: "npfloat \<Rightarrow> npfloat \<Rightarrow> npfloat" where
  "np_div NaN y = NaN"
| "np_div x NaN = NaN"
| "np_div (Fin a) (Fin b) =
     (if b \<noteq> 0 then Fin (a / b) else if 0 < a then PInf else if a < 0 then NInf else NaN)"
| "np_div (Fin a) y = Fin 0"
| "np_div x (Fin b) = (if 0 \<le> b then x else np_neg x)"
| "np_div x y = NaN"

fun np_less :: "npfloat \<Rightarrow> npfloat \<Rightarrow> bool" where
  "np_less NaN y = False"
| "np_less x NaN = False"
| "np_less (Fin a) (Fin b) = (a < b)"
| "np_less x NInf = False"
| "np_less PInf y = False"
| "np_less x y = True"

text \<open>
  Python's \<open>min(a, b)\<close> keeps its first argument unless the second compares less, which a
  \<open>nan\<close> never does.
\<close>

definition py_min :: "npfloat \<Rightarrow> npfloat \<Rightarrow> npfloat" where
  "py_min a b = (if np_less b a then b else a)"

text \<open>The agent classes of \<open>agents.py\<close>; \<open>type(agent)\<close> is a value of \<open>breed\<close>.\<close>

datatype breed = Land | Person | Firm | Bank | Investor | Realtor

text \<open>
  The Python values that reach the constructors' \<open>isinstance\<close> checks.  \<open>Obj c a\<close> is the
  object of class \<open>c\<close> stored at address \<open>a\<close>.
\<close>

datatype pyval = NoneV | BoolV bool | IntV int | FloatV real | StrV string | Obj breed nat

fun isinstance :: "pyval \<Rightarrow> breed \<Rightarrow> bool" where
  "isinstance (Obj c a) k = (c = k)"
| "isinstance v k = False"

text \<open>\<open>isinstance(v, (float, int))\<close>: \<open>bool\<close> is a subclass of \<open>int\<close> in Python.\<close>

fun is_numeric :: "pyval \<Rightarrow> bool" where
  "is_numeric (IntV i) = True"
| "is_numeric (FloatV x) = True"
| "is_numeric (BoolV b) = True"
| "is_numeric v = False"

fun num_val :: "pyval \<Rightarrow> real" where
  "num_val (IntV i) = of_int i"
| "num_val (FloatV x) = x"
| "num_val (BoolV b) = (if b then 1 else 0)"
| "num_val v = 0"

text \<open>
  A Python \<open>dict\<close> keeps insertion order: an association list with distinct keys.
  \<open>d[k] = v\<close> is \<open>AList.update k v d\<close> (in place for a present key, appended for a new one),
  \<open>list(d.keys())\<close> is \<open>map fst d\<close>, \<open>del d[k]\<close> raises KeyError on an absent key.
\<close>

definition dict_del :: "'k \<Rightarrow> ('k \<times> 'v) list \<Rightarrow> error + ('k \<times> 'v) list" where
  "dict_del k d = (if k \<in> fst ` set d then Inr (AList.delete k d) else Inl KeyError)"

section \<open>Bid and Allocation\<close>

record Bid =
  bidder :: nat
  property :: nat
  price :: real
  mortgage :: real

text \<open>\<open>Bid.__init__(bidder, property, price, mortgage=0.0)\<close>.\<close>

definition Bid_init :: "pyval \<Rightarrow> pyval \<Rightarrow> pyval \<Rightarrow> pyval \<Rightarrow> error + Bid" where
  "Bid_init b p pr mo =
     (if \<not> isinstance b Person then Inl ValueError
      else if \<not> isinstance p Land then Inl ValueError
      else if \<not> is_numeric pr then Inl ValueError
      else if \<not> is_numeric mo then Inl ValueError
      else (case (b, p) of
              (Obj cb ab, Obj cp ap) \<Rightarrow>
                 Inr \<lparr>bidder = ab, property = ap, price = num_val pr, mortgage = num_val mo\<rparr>
            | _ \<Rightarrow> Inl ValueError))"

record Allocation =
  a_property :: nat
  successful_bidder :: pyval
  highest_bid :: real
  second_highest_bid :: real
  final_price :: real

text \<open>\<open>Allocation.__init__\<close>: the bidder may be a Person or None.\<close>

definition Allocation_init ::
  "pyval \<Rightarrow> pyval \<Rightarrow> pyval \<Rightarrow> pyval \<Rightarrow> pyval \<Rightarrow> error + Allocation" where
  "Allocation_init p sb hb shb fp =
     (if \<not> isinstance p Land then Inl ValueError
      else if sb \<noteq> NoneV \<and> \<not> isinstance sb Person then Inl ValueError
      else if \<not> is_numeric hb then Inl ValueError
      else if \<not> is_numeric shb then Inl ValueError
      else if \<not> is_numeric fp then Inl ValueError
      else (case p of
              Obj cp ap \<Rightarrow>
                 Inr \<lparr>a_property = ap, successful_bidder = sb, highest_bid = num_val hb,
                      second_highest_bid = num_val shb, final_price = num_val fp\<rparr>
            | _ \<Rightarrow> Inl ValueError))"

section \<open>The scheduler (schedule.py)\<close>

text \<open>
  Every class of \<open>agents.py\<close> extends mesa's \<open>Agent\<close>, which carries \<open>unique_id\<close>.
  What the scheduler sees of an agent is its \<open>unique_id\<close>, its class (\<open>type(agent)\<close>) and
  the object itself (its address \<open>ref\<close>).  Two distinct objects may carry the same
  \<open>unique_id\<close>.
\<close>

record mesa_agent =
  unique_id :: nat

record agent = mesa_agent +
  agent_class :: breed
  ref :: nat

text \<open>
  \<open>_agents\<close> is the registry of the base scheduler, \<open>agents_by_breed\<close> the
  \<open>defaultdict(dict)\<close> of the subclass: a class without an entry reads as the empty dict.
\<close>

record scheduler =
  agents :: "(nat \<times> agent) list"
  agents_by_breed :: "breed \<Rightarrow> (nat \<times> agent) list"
  steps :: nat
  time :: nat

text \<open>\<open>RandomActivationByBreed.add\<close>: two dictionary assignments, no check.\<close>

definition add :: "scheduler \<Rightarrow> agent \<Rightarrow> error + scheduler" where
  "add s a =
     (let s1 = s\<lparr>agents := AList.update (unique_id a) a (agents s)\<rparr>;
          agent_class = agent_class a
      in Inr (s1\<lparr>agents_by_breed := (agents_by_breed s1)
                 (agent_class := AList.update (unique_id a) a (agents_by_breed s1 agent_class))\<rparr>))"

text \<open>\<open>RandomActivationByBreed.remove\<close>: each \<open>del\<close> raises KeyError on an absent id.\<close>

definition remove :: "scheduler \<Rightarrow> agent \<Rightarrow> error + scheduler" where
  "remove s a =
     bindE (dict_del (unique_id a) (agents s)) (\<lambda>ag.
       let s1 = s\<lparr>agents := ag\<rparr>; agent_class = agent_class a in
       bindE (dict_del (unique_id a) (agents_by_breed s1 agent_class)) (\<lambda>bb.
         Inr (s1\<lparr>agents_by_breed := (agents_by_breed s1)(agent_class := bb)\<rparr>)))"

section \<open>The workforce registry\<close>

text \<open>
  Modelled from the spec: the class \<open>Workforce\<close> lives in \<open>model.py\<close>, which is not among the
  sources.  The spec (4.2) gives three membership sets keyed by agent identity and the
  operations \<open>add(agent, set)\<close> (idempotent), \<open>remove(agent, set)\<close> (no-op if absent),
  \<open>remove_from_all(agent)\<close> and \<open>get_agent_count(set)\<close>.
\<close>

record Workforce =
  newcomers :: "nat set"
  workers :: "nat set"
  retiring :: "nat set"

definition workforce_add :: "nat \<Rightarrow> nat set \<Rightarrow> nat set" where
  "workforce_add uid S = insert uid S"

definition workforce_remove :: "nat \<Rightarrow> nat set \<Rightarrow> nat set" where
  "workforce_remove uid S = S - {uid}"

definition remove_from_all :: "nat \<Rightarrow> Workforce \<Rightarrow> Workforce" where
  "remove_from_all uid wkf =
     wkf\<lparr>newcomers := workforce_remove uid (newcomers wkf),
         workers := workforce_remove uid (workers wkf),
         retiring := workforce_remove uid (retiring wkf)\<rparr>"

definition get_agent_count :: "nat set \<Rightarrow> nat" where
  "get_agent_count S = card S"

section \<open>The state of the model\<close>

text \<open>
  The single representative firm.  The attributes named by one letter in the source carry
  the prefix \<open>firm_\<close> (\<open>firm_N\<close> is \<open>self.N\<close>), as do \<open>mult\<close> and \<open>dist\<close>.
\<close>

record firm =
  subsistence_wage :: real
  alpha :: real
  beta :: real
  gamma :: real
  price_of_output :: real
  seed_population :: real
  density :: real
  firm_A :: real
  overhead :: real
  firm_mult :: real
  firm_c :: real
  adjN :: real
  adjk :: real
  adjn :: real
  adjF :: real
  adjw :: real
  firm_dist :: real
  firm_r :: real
  firm_y :: real
  firm_Y :: real
  firm_F :: real
  firm_k :: real
  firm_n :: real
  F_target :: real
  firm_N :: real
  agglomeration_population :: real
  wage_premium :: real
  wage :: real
  MPL :: real
  wage_target :: real
  y_target :: real
  k_target :: real

text \<open>
  A land parcel.  \<open>resident\<close> and \<open>owner\<close> are references to other objects, or None.
\<close>

record land = mesa_agent +
  pos :: "int \<times> int"
  property_tax_rate :: real
  resident :: pyval
  owner :: pyval
  distance_from_center :: real
  transport_cost :: real

text \<open>
  Person and Investor both hold \<open>properties_owned\<close>, a Python list: the attribute is the
  address of the list object in the store \<open>lists\<close>, so that two agents may share one list
  (as the Investors built with the default argument do).  The position of a Person is kept
  by mesa's grid.
\<close>

record holder = mesa_agent +
  properties_owned :: nat

type_synonym investor = holder

record person = holder +
  init_working_period :: int
  working_period :: int
  savings :: real
  residence :: "nat option"
  amenity :: real
  wealth :: real
  count :: nat

text \<open>
  The model (\<open>City\<close> in \<open>model.py\<close>, not among the sources) with everything it owns: its
  parameters, the firm, the realtor's three collections, the registries and the objects.
  \<open>p_dot\<close> is the value of \<open>model.get_p_dot()\<close>.  mesa's grid is reduced to the position it
  keeps for each Person: \<open>move_agent\<close> stores one, \<open>remove_agent\<close> drops it.
\<close>

record world =
  r_target :: real
  r_prime :: real
  delta :: real
  mortgage_period :: nat
  p_dot :: real
  housing_services_share :: real
  maintenance_share :: real
  savings_per_step :: real
  working_periods :: int
  center_city :: bool
  the_firm :: firm
  workforce :: Workforce
  schedule :: scheduler
  grid :: "nat \<rightharpoonup> int \<times> int"
  removed_agents :: int
  sale_listing :: "nat list"
  rental_listing :: "nat list"
  bids :: "(nat \<times> Bid list) list"
  persons :: "nat \<rightharpoonup> person"
  investors :: "nat \<rightharpoonup> investor"
  lands :: "nat \<rightharpoonup> land"
  lists :: "nat \<rightharpoonup> nat list"

section \<open>Land\<close>

definition warranted_rent :: "world \<Rightarrow> land \<Rightarrow> real" where
  "warranted_rent w l =
     (let wage_premium = wage_premium (the_firm w);
          subsistence_wage = subsistence_wage (the_firm w);
          a = housing_services_share w
      in wage_premium - transport_cost l + a * subsistence_wage)"

text \<open>
  The warranted rent is a \<open>numpy.float64\<close> and finite; the division by \<open>r_prime\<close> and what
  follows it are \<open>numpy\<close> arithmetic.
\<close>

definition warranted_price :: "world \<Rightarrow> land \<Rightarrow> npfloat" where
  "warranted_price w l = np_div (Fin (warranted_rent w l)) (Fin (r_prime w))"

definition appraised_price :: "world \<Rightarrow> land \<Rightarrow> npfloat" where
  "appraised_price w l = warranted_price w l"

definition property_tax :: "world \<Rightarrow> land \<Rightarrow> npfloat" where
  "property_tax w l =
     (let tau = property_tax_rate l;
          appraised_price = appraised_price w l
      in np_mul (Fin tau) appraised_price)"

definition maintenance :: "world \<Rightarrow> land \<Rightarrow> real" where
  "maintenance w l =
     (let a = housing_services_share w;
          b = maintenance_share w;
          subsistence_wage = subsistence_wage (the_firm w)
      in a * b * subsistence_wage)"

definition net_rent :: "world \<Rightarrow> land \<Rightarrow> npfloat" where
  "net_rent w l = np_sub (Fin (warranted_rent w l - maintenance w l)) (property_tax w l)"

section \<open>Bank\<close>

text \<open>
  \<open>Bank.get_max_bid\<close>, as \<open>Person.bid\<close> calls it: the net rent \<open>R_N\<close> is that of a parcel, a
  \<open>numpy.float64\<close>, the other arguments and the parameters of the model are Python floats.
  The divisions by \<open>r\<close> and by \<open>delta**T\<close> are between Python floats and raise on zero; the
  last one divides the \<open>numpy.float64\<close> \<open>R_NT\<close> by the discount term and does not.  The
  mortgage period \<open>T\<close> is a whole number of periods.
\<close>

definition get_max_bid ::
  "world \<Rightarrow> npfloat \<Rightarrow> real \<Rightarrow> real \<Rightarrow> real \<Rightarrow> real \<Rightarrow> error + npfloat" where
  "get_max_bid w = (\<lambda>R_N r r_target m transport_cost.
      let T = mortgage_period w;
          delta = delta w;
          p_dot = p_dot w
      in bindE (fdiv ((1 + r) ^ T - 1) r) (\<lambda>q.
           let R_NT = np_mul (Fin q) R_N in
           bindE (fdiv ((1 - m) * r_target) (delta ^ T)) (\<lambda>d.
             Inr (np_div R_NT (Fin (d - p_dot))))))"

section \<open>Firm\<close>

definition get_N :: "world \<Rightarrow> real" where
  "get_N w =
     (let worker_agent_count = real (get_agent_count (workers (workforce w)));
          N = (if center_city w then density (the_firm w) * worker_agent_count
               else 4 * density (the_firm w) * worker_agent_count)
      in if N = 0 then 1 else N)"

text \<open>
  The product \<open>c * agglomeration_population**gamma * k**alpha * n**beta\<close>, which the source
  writes out twice: with \<open>c = A\<close> for the output \<open>y\<close> and with \<open>c = price_of_output * A\<close> for
  \<open>y_target\<close>.
\<close>

definition production :: "real \<Rightarrow> firm \<Rightarrow> error + real" where
  "production c f =
     bindE (fpow (agglomeration_population f) (gamma f)) (\<lambda>g.
       bindE (fpow (firm_k f) (alpha f)) (\<lambda>a.
         bindE (fpow (firm_n f) (beta f)) (\<lambda>b. Inr (c * g * a * b))))"

text \<open>The blocks of \<open>Firm.step\<close>, in the order of the source.\<close>

definition get_population_and_output :: "world \<Rightarrow> firm \<Rightarrow> error + firm" where
  "get_population_and_output w f =
     (let f = f\<lparr>firm_N := get_N w\<rparr>;
          f = f\<lparr>agglomeration_population := firm_mult f * firm_N f + seed_population f\<rparr>
      in bindE (fdiv (firm_N f) (firm_F f)) (\<lambda>q.
           let f = f\<lparr>firm_n := q\<rparr> in
           bindE (production (firm_A f) f) (\<lambda>y. Inr (f\<lparr>firm_y := y\<rparr>))))"

definition adjust_wage :: "firm \<Rightarrow> error + firm" where
  "adjust_wage f =
     bindE (fdiv (beta f * firm_y f) (firm_n f)) (\<lambda>q.
       let f = f\<lparr>MPL := q\<rparr> in
       bindE (fdiv (MPL f - subsistence_wage f) (1 + overhead f)) (\<lambda>q.
         let f = f\<lparr>wage_target := subsistence_wage f + q\<rparr>
         in Inr (f\<lparr>wage := (1 - adjw f) * wage f + adjw f * wage_target f\<rparr>)))"

definition find_population_at_new_wage :: "firm \<Rightarrow> firm" where
  "find_population_at_new_wage f = f\<lparr>wage_premium := wage f - subsistence_wage f\<rparr>"

definition adjust_number_of_firms :: "firm \<Rightarrow> error + firm" where
  "adjust_number_of_firms f =
     bindE (fdiv (firm_F f * wage_target f) (wage f)) (\<lambda>q.
       let f = f\<lparr>F_target := q\<rparr> in
       Inr (f\<lparr>firm_F := (1 - adjF f) * firm_F f + adjF f * F_target f\<rparr>))"

definition adjust_capital_stock :: "firm \<Rightarrow> error + firm" where
  "adjust_capital_stock f =
     bindE (production (price_of_output f * firm_A f) f) (\<lambda>y.
       let f = f\<lparr>y_target := y\<rparr> in
       bindE (fdiv (alpha f * y_target f) (firm_r f)) (\<lambda>q.
         let f = f\<lparr>k_target := q\<rparr> in
         Inr (f\<lparr>firm_k := (1 - adjk f) * firm_k f + adjk f * k_target f\<rparr>)))"

definition Firm_step :: "world \<Rightarrow> error + world" where
  "Firm_step w =
     bindE (get_population_and_output w (the_firm w)) (\<lambda>f.
       bindE (adjust_wage f) (\<lambda>f.
         bindE (adjust_number_of_firms (find_population_at_new_wage f)) (\<lambda>f.
           bindE (adjust_capital_stock f) (\<lambda>f. Inr (w\<lparr>the_firm := f\<rparr>)))))"

section \<open>Stores\<close>

text \<open>
  Reading \<open>x.properties_owned\<close>: only a Person or an Investor has the attribute.  An address
  that holds no object does not occur in Python; the model answers AttributeError there too.
\<close>

definition get_properties_owned :: "world \<Rightarrow> pyval \<Rightarrow> error + nat" where
  "get_properties_owned w x =
     (case x of
        Obj c a \<Rightarrow>
          (if c = Person then
             (case persons w a of None \<Rightarrow> Inl AttributeError | Some p \<Rightarrow> Inr (properties_owned p))
           else if c = Investor then
             (case investors w a of None \<Rightarrow> Inl AttributeError | Some i \<Rightarrow> Inr (properties_owned i))
           else Inl AttributeError)
      | _ \<Rightarrow> Inl AttributeError)"

text \<open>\<open>list.append(x)\<close> and \<open>list.remove(x)\<close> on the list object at an address.\<close>

definition list_append :: "nat \<Rightarrow> nat \<Rightarrow> world \<Rightarrow> error + world" where
  "list_append la x w =
     (case lists w la of
        None \<Rightarrow> Inl AttributeError
      | Some xs \<Rightarrow> Inr (w\<lparr>lists := (lists w)(la \<mapsto> xs @ [x])\<rparr>))"

definition list_remove :: "nat \<Rightarrow> nat \<Rightarrow> world \<Rightarrow> error + world" where
  "list_remove la x w =
     (case lists w la of
        None \<Rightarrow> Inl AttributeError
      | Some xs \<Rightarrow>
          if x \<in> set xs then Inr (w\<lparr>lists := (lists w)(la \<mapsto> remove1 x xs)\<rparr>)
          else Inl ValueError)"

section \<open>Person\<close>

definition individual_wealth_adjustment :: real where
  "individual_wealth_adjustment = 2 / 1000"

definition borrowing_rate :: "world \<Rightarrow> real" where
  "borrowing_rate w = r_target w + individual_wealth_adjustment"

definition get_wealth :: "person \<Rightarrow> real" where
  "get_wealth p = savings p"

definition get_max_mortgage_share :: real where
  "get_max_mortgage_share = 8 / 10"

definition get_max_mortgage :: "world \<Rightarrow> person \<Rightarrow> error + real" where
  "get_max_mortgage w p =
     (let S = savings p;
          r = borrowing_rate w;
          r_prime = r_prime w;
          wage = wage (the_firm w)
      in fdiv (28 / 100 * (wage + r * S)) r_prime)"

text \<open>
  \<open>Person.remove\<close>.  The workforce registry is keyed by \<open>unique_id\<close>, the grid by the object.
\<close>

definition Person_remove :: "world \<Rightarrow> nat \<Rightarrow> error + world" where
  "Person_remove w self =
     (case persons w self of
        None \<Rightarrow> Inl AttributeError
      | Some p \<Rightarrow>
          let w = w\<lparr>removed_agents := removed_agents w + 1\<rparr>;
              w = w\<lparr>workforce := remove_from_all (unique_id p) (workforce w)\<rparr>
          in bindE (remove (schedule w) \<lparr>unique_id = unique_id p, agent_class = Person, ref = self\<rparr>)
               (\<lambda>s. let w = w\<lparr>schedule := s\<rparr> in Inr (w\<lparr>grid := (grid w)(self := None)\<rparr>)))"

text \<open>
  \<open>Person.step\<close>.  \<open>count\<close> starts at 0 and is only ever incremented, hence a \<open>nat\<close>; the
  logging calls have no effect on the state.
\<close>

definition Person_step :: "world \<Rightarrow> nat \<Rightarrow> error + world" where
  "Person_step w0 self =
     (case persons w0 self of
        None \<Rightarrow> Inl AttributeError
      | Some p0 \<Rightarrow>
          let p = p0\<lparr>count := count p0 + 1\<rparr>;
              p = p\<lparr>working_period := working_period p + 1\<rparr>;
              w = w0\<lparr>persons := (persons w0)(self \<mapsto> p)\<rparr>
          in
          if unique_id p \<in> newcomers (workforce w) then
            (if residence p = None then
               (if count p > 0 then Person_remove w self else Inr w)
             else Inr w)
          else if residence p \<noteq> None \<and> unique_id p \<notin> retiring (workforce w) then
            (case residence p of
               None \<Rightarrow> Inr w
             | Some res \<Rightarrow>
                 bindE
                   (if working_period p > working_periods w then
                      let w = w\<lparr>workforce := (workforce w)
                                 \<lparr>retiring := workforce_add (unique_id p) (retiring (workforce w))\<rparr>\<rparr>
                      in (case lists w (properties_owned p) of
                            None \<Rightarrow> Inl AttributeError
                          | Some owned \<Rightarrow>
                              if res \<in> set owned
                              then Inr (w\<lparr>sale_listing := sale_listing w @ [res]\<rparr>)
                              else Inr w)
                    else
                      let premium = wage_premium (the_firm w) in
                      (case lands w res of
                         None \<Rightarrow> Inl AttributeError
                       | Some l \<Rightarrow>
                           if premium > transport_cost l
                           then Inr (w\<lparr>workforce := (workforce w)
                                       \<lparr>workers := workforce_add (unique_id p) (workers (workforce w))\<rparr>\<rparr>)
                           else Inr (w\<lparr>workforce := (workforce w)
                                       \<lparr>workers := workforce_remove (unique_id p) (workers (workforce w))\<rparr>\<rparr>)))
                   (\<lambda>w. let p = p\<lparr>savings := savings p + savings_per_step w\<rparr>;
                            p = p\<lparr>wealth := get_wealth p\<rparr>
                        in Inr (w\<lparr>persons := (persons w)(self \<mapsto> p)\<rparr>)))
          else Inr w)"

section \<open>Realtor\<close>

text \<open>
  \<open>Realtor.add_bid\<close>.  \<open>self.bids\<close> is a \<open>defaultdict(list)\<close> keyed by the Land object: a
  property without an entry reads as the empty list, and the entry is created at the end.
  The Bid is built from three arguments, so its mortgage is the default 0.0.
  \<open>book_append\<close> is \<open>self.bids[property].append(bid)\<close>.
\<close>

definition book_append :: "Bid \<Rightarrow> (nat \<times> Bid list) list \<Rightarrow> (nat \<times> Bid list) list" where
  "book_append bid book =
     (let key = Bid.property bid;
          property_bids = (case map_of book key of None \<Rightarrow> [] | Some bs \<Rightarrow> bs)
      in AList.update key (property_bids @ [bid]) book)"

definition add_bid :: "world \<Rightarrow> pyval \<Rightarrow> pyval \<Rightarrow> pyval \<Rightarrow> error + world" where
  "add_bid w = (\<lambda>bidder property price.
     if \<not> isinstance bidder Person then Inl ValueError
     else if \<not> isinstance property Land then Inl ValueError
     else if \<not> is_numeric price then Inl ValueError
     else bindE (Bid_init bidder property price (FloatV 0)) (\<lambda>bid.
            Inr (w\<lparr>bids := book_append bid (bids w)\<rparr>)))"

text \<open>
  \<open>Person.bid\<close>: \<open>bid_on\<close> is the body of the loop over the sale listing, \<open>bid_loop\<close> the loop.
  An entry of the listing that is no Land has no \<open>net_rent\<close>.  \<open>offer\<close> is the \<open>if\<close> of the
  body: the mortgage and the price \<open>P_bid\<close> for a maximum bid.  The Bid built in the body is
  made of a Person, a Land and two floats, so its constructor passes; only its price is
  used afterwards.  A price of \<open>inf\<close> has no place in the bid book of the model (it does not
  arise, see \<open>offer_positive_finite\<close>).
\<close>

definition offer :: "real \<Rightarrow> real \<Rightarrow> real \<Rightarrow> npfloat \<Rightarrow> npfloat \<times> npfloat" where
  "offer m M S P_max_bid =
     (if np_less (np_mul (Fin m) P_max_bid) (Fin m)
      then (np_mul (Fin m) P_max_bid, py_min (np_add (np_mul (Fin m) P_max_bid) (Fin S)) P_max_bid)
      else (Fin M, py_min (Fin (M + S)) P_max_bid))"

definition bid_on ::
  "nat \<Rightarrow> real \<Rightarrow> real \<Rightarrow> real \<Rightarrow> real \<Rightarrow> real \<Rightarrow> nat \<Rightarrow> world \<Rightarrow> error + world" where
  "bid_on self S r m M r_target' sale_property w =
     (case lands w sale_property of
        None \<Rightarrow> Inl AttributeError
      | Some l \<Rightarrow>
          let R_N = net_rent w l in
          bindE (get_max_bid w R_N r r_target' m (transport_cost l)) (\<lambda>P_max_bid.
            let (mortgage, P_bid) = offer m M S P_max_bid
            in if np_less (Fin 0) P_bid
               then (case P_bid of
                       Fin price' \<Rightarrow>
                         add_bid w (Obj Person self) (Obj Land sale_property) (FloatV price')
                     | _ \<Rightarrow> Inl NotReal)
               else Inr w))"

fun bid_loop ::
  "nat \<Rightarrow> real \<Rightarrow> real \<Rightarrow> real \<Rightarrow> real \<Rightarrow> real \<Rightarrow> nat list \<Rightarrow> world \<Rightarrow> error + world" where
  "bid_loop self S r m M r_target' [] w = Inr w"
| "bid_loop self S r m M r_target' (sale_property # rest) w =
     bindE (bid_on self S r m M r_target' sale_property w) (bid_loop self S r m M r_target' rest)"

definition Person_bid :: "world \<Rightarrow> nat \<Rightarrow> error + world" where
  "Person_bid w self =
     (case persons w self of
        None \<Rightarrow> Inl AttributeError
      | Some p \<Rightarrow>
          let W = get_wealth p;
              S = savings p;
              r = borrowing_rate w;
              m = get_max_mortgage_share
          in bindE (get_max_mortgage w p) (\<lambda>M.
               bid_loop self S r m M (r_target w) (sale_listing w) w))"

text \<open>\<open>Realtor.transfer_property\<close>: append to the buyer's list, remove from the seller's, set the owner.\<close>

definition transfer_property :: "world \<Rightarrow> pyval \<Rightarrow> pyval \<Rightarrow> nat \<Rightarrow> error + world" where
  "transfer_property w seller buyer sale_property =
     bindE (get_properties_owned w buyer) (\<lambda>lb.
       bindE (list_append lb sale_property w) (\<lambda>w.
         bindE (get_properties_owned w seller) (\<lambda>ls.
           bindE (list_remove ls sale_property w) (\<lambda>w.
             (case lands w sale_property of
                None \<Rightarrow> Inl AttributeError
              | Some l \<Rightarrow> Inr (w\<lparr>lands := (lands w)(sale_property \<mapsto> l\<lparr>owner := buyer\<rparr>)\<rparr>))))))"

definition handle_investor_purchase :: "world \<Rightarrow> pyval \<Rightarrow> nat \<Rightarrow> error + world" where
  "handle_investor_purchase w buyer sale_property =
     Inr (w\<lparr>rental_listing := rental_listing w @ [sale_property]\<rparr>)"

definition handle_person_purchase :: "world \<Rightarrow> nat \<Rightarrow> nat \<Rightarrow> real \<Rightarrow> error + world" where
  "handle_person_purchase w buyer sale_property final_price' =
     (case (lands w sale_property, persons w buyer) of
        (Some l, Some b) \<Rightarrow>
          let w = w\<lparr>lands := (lands w)(sale_property \<mapsto> l\<lparr>resident := Obj Person buyer\<rparr>)\<rparr>;
              w = w\<lparr>persons := (persons w)(buyer \<mapsto> b\<lparr>residence := Some sale_property\<rparr>)\<rparr>;
              w = w\<lparr>grid := (grid w)(buyer \<mapsto> pos l)\<rparr>
          in if unique_id b \<in> newcomers (workforce w)
             then Inr (w\<lparr>workforce := (workforce w)
                         \<lparr>newcomers := workforce_remove (unique_id b) (newcomers (workforce w))\<rparr>\<rparr>)
             else Inr w
      | _ \<Rightarrow> Inl AttributeError)"

definition handle_seller_departure :: "world \<Rightarrow> nat \<Rightarrow> error + world" where
  "handle_seller_departure w seller =
     (case persons w seller of
        None \<Rightarrow> Inl AttributeError
      | Some s \<Rightarrow>
          if unique_id s \<in> retiring (workforce w) then Person_remove w seller else Inr w)"

text \<open>
  \<open>Realtor.complete_transactions\<close>: \<open>complete_transaction\<close> is the body of the loop.  The
  seller is read from the property before the transfer.
\<close>

definition complete_transaction :: "world \<Rightarrow> Allocation \<Rightarrow> error + world" where
  "complete_transaction w allocation =
     (case lands w (a_property allocation) of
        None \<Rightarrow> Inl AttributeError
      | Some l \<Rightarrow>
          let buyer = successful_bidder allocation;
              seller = owner l;
              final_price = final_price allocation
          in bindE (transfer_property w seller buyer (a_property allocation)) (\<lambda>w.
               bindE (case buyer of
                        Obj c b \<Rightarrow>
                          if c = Investor then handle_investor_purchase w buyer (a_property allocation)
                          else if c = Person
                          then handle_person_purchase w b (a_property allocation) final_price
                          else Inr w
                      | _ \<Rightarrow> Inr w) (\<lambda>w.
                 (case seller of
                    Obj c s \<Rightarrow> if c = Person then handle_seller_departure w s else Inr w
                  | _ \<Rightarrow> Inr w))))"

fun complete_transactions :: "world \<Rightarrow> Allocation list \<Rightarrow> error + world" where
  "complete_transactions w [] = Inr w"
| "complete_transactions w (allocation # rest) =
     bindE (complete_transaction w allocation) (\<lambda>w. complete_transactions w rest)"

text \<open>
  \<open>Realtor.sell_homes\<close>.  \<open>list.sort(key=price, reverse=True)\<close> is a stable sort into
  descending price: bids of equal price keep the order in which they were submitted, which is
  \<open>sort_key\<close> on the negated price.  The keys of the bid book are Land objects, so the
  \<open>isinstance\<close> check of the loop passes.  \<open>allocate\<close> is the body of the loop for one entry
  of the book, \<open>make_allocations\<close> the loop.
\<close>

definition allocate :: "nat \<Rightarrow> Bid list \<Rightarrow> error + Allocation list" where
  "allocate property' property_bids =
     (if length property_bids > 0 then
        let property_bids = sort_key (\<lambda>x. - price x) property_bids;
            highest_bid = property_bids ! 0;
            second_highest_bid =
              (if length property_bids > 1 then price (property_bids ! 1) else 0);
            final_price = price highest_bid
        in bindE (Allocation_init (Obj Land property') (Obj Person (bidder highest_bid))
                    (FloatV (price highest_bid)) (FloatV second_highest_bid) (FloatV final_price))
             (\<lambda>allocation. Inr [allocation])
      else Inr [])"

fun make_allocations :: "(nat \<times> Bid list) list \<Rightarrow> error + Allocation list" where
  "make_allocations [] = Inr []"
| "make_allocations ((property', property_bids) # rest) =
     bindE (allocate property' property_bids) (\<lambda>a.
       bindE (make_allocations rest) (\<lambda>as. Inr (a @ as)))"

definition sell_homes :: "world \<Rightarrow> error + (Allocation list \<times> world)" where
  "sell_homes w =
     bindE (make_allocations (bids w)) (\<lambda>allocations.
       bindE (complete_transactions w allocations) (\<lambda>w.
         Inr (allocations, w\<lparr>bids := []\<rparr>)))"

section \<open>Specification-side notions\<close>

text \<open>
  The words of the specification for \<open>Person.bid\<close>: the bid price is the lesser of
  mortgage-financed amount plus savings and the maximum bid.  A mortgage finances at most
  the share \<open>m\<close> of the price and at most the maximum mortgage \<open>M\<close> of the bidder, the two
  amounts between which the source chooses.
\<close>

definition spec_bid_price :: "real \<Rightarrow> real \<Rightarrow> real \<Rightarrow> real \<Rightarrow> real" where
  "spec_bid_price m M S P_max_bid = min (min (m * P_max_bid) M + S) P_max_bid"

text \<open>
  The words of the specification for ownership.  \<open>owned_by w x\<close> is the content of
  \<open>x.properties_owned\<close>, if \<open>x\<close> has that attribute.  Two states have the \<open>same_titles\<close> when
  they agree on every list of owned properties and on the owner of every parcel.
\<close>

definition owned_by :: "world \<Rightarrow> pyval \<Rightarrow> nat list option" where
  "owned_by w x = (case get_properties_owned w x of Inl e \<Rightarrow> None | Inr la \<Rightarrow> lists w la)"

definition same_titles :: "world \<Rightarrow> world \<Rightarrow> bool" where
  "same_titles w w' \<longleftrightarrow>
     lists w' = lists w \<and>
     (\<forall>x. get_properties_owned w' x = get_properties_owned w x) \<and>
     (\<forall>q. map_option owner (lands w' q) = map_option owner (lands w q))"

text \<open>
  \<open>keeps_title P w w'\<close>: between the two states nobody's list of owned properties has gained
  or lost the parcel \<open>P\<close>, and \<open>P\<close> has kept its owner.
\<close>

definition keeps_title :: "nat \<Rightarrow> world \<Rightarrow> world \<Rightarrow> bool" where
  "keeps_title P w w' \<longleftrightarrow>
     (\<forall>x. get_properties_owned w' x = get_properties_owned w x) \<and>
     (\<forall>la. map_option (\<lambda>xs. count_list xs P) (lists w' la)
             = map_option (\<lambda>xs. count_list xs P) (lists w la)) \<and>
     map_option owner (lands w' P) = map_option owner (lands w P)"

text \<open>
  The words of the specification for the clearing of one property with bids
  \<open>p1 \<ge> p2 \<ge> ...\<close>: the highest bid and the final price are the highest price \<open>p1\<close>, the
  successful bidder is the bidder of the first bid submitted at that price, and the
  second-highest bid is the highest price among the other bids, or 0 if there is no other.
\<close>

definition spec_allocation :: "nat \<Rightarrow> Bid list \<Rightarrow> Allocation" where
  "spec_allocation p bs =
     (let prices = map price bs; p1 = Max (set prices)
      in \<lparr>a_property = p,
          successful_bidder = Obj Person (bidder (hd [b \<leftarrow> bs. price b = p1])),
          highest_bid = p1,
          second_highest_bid = (if length bs > 1 then Max (set (remove1 p1 prices)) else 0),
          final_price = p1\<rparr>)"

text \<open>Every bid of a bid book carries the mortgage 0.\<close>

definition mortgage_free :: "(nat \<times> Bid list) list \<Rightarrow> bool" where
  "mortgage_free book = list_all (\<lambda>e. list_all (\<lambda>b. mortgage b = 0) (snd e)) book"

section \<open>Example inputs\<close>

text \<open>
  A small city used to evaluate the operations: Person 1 is a newcomer without residence,
  Person 2 is retiring, owns parcel 5 and lives there; parcel 5 is on the sale listing.
\<close>

definition ex_firm :: firm where
  "ex_firm = \<lparr>subsistence_wage = 1, alpha = 1, beta = 1, gamma = 0, price_of_output = 1,
     seed_population = 1, density = 1, firm_A = 1, overhead = 0, firm_mult = 1, firm_c = 1,
     adjN = 1 / 2, adjk = 1 / 2, adjn = 1 / 2, adjF = 1 / 2, adjw = 1 / 2, firm_dist = 1,
     firm_r = 1, firm_y = 100000, firm_Y = 0, firm_F = 1, firm_k = 2, firm_n = 1, F_target = 1,
     firm_N = 1, agglomeration_population = 1, wage_premium = 10, wage = 11, MPL = 0,
     wage_target = 0, y_target = 0, k_target = 0\<rparr>"

definition ex_person1 :: person where
  "ex_person1 = \<lparr>unique_id = 1, properties_owned = 11, init_working_period = 0,
     working_period = 0, savings = 100, residence = None, amenity = 0, wealth = 0, count = 0\<rparr>"

definition ex_person2 :: person where
  "ex_person2 = \<lparr>unique_id = 2, properties_owned = 12, init_working_period = 0,
     working_period = 50, savings = 0, residence = Some 5, amenity = 0, wealth = 0, count = 50\<rparr>"

definition ex_land :: land where
  "ex_land = \<lparr>unique_id = 5, pos = (3, 4), property_tax_rate = 0, resident = Obj Person 2,
     owner = Obj Person 2, distance_from_center = 5, transport_cost = 2\<rparr>"

definition ex_agent1 :: agent where
  "ex_agent1 = \<lparr>unique_id = 1, agent_class = Person, ref = 1\<rparr>"

definition ex_agent2 :: agent where
  "ex_agent2 = \<lparr>unique_id = 2, agent_class = Person, ref = 2\<rparr>"

definition ex_schedule :: scheduler where
  "ex_schedule = \<lparr>agents = [(1, ex_agent1), (2, ex_agent2)],
     agents_by_breed = (\<lambda>c. [])(Person := [(1, ex_agent1), (2, ex_agent2)]),
     steps = 0, time = 0\<rparr>"

definition ex_world :: world where
  "ex_world = \<lparr>r_target = 1 / 10, r_prime = 1, delta = 1, mortgage_period = 1, p_dot = 0,
     housing_services_share = 0, maintenance_share = 0, savings_per_step = 1,
     working_periods = 40, center_city = True, the_firm = ex_firm,
     workforce = \<lparr>newcomers = {1}, workers = {}, retiring = {2}\<rparr>,
     schedule = ex_schedule, grid = [2 \<mapsto> (3, 4)], removed_agents = 0,
     sale_listing = [5], rental_listing = [], bids = [],
     persons = [1 \<mapsto> ex_person1, 2 \<mapsto> ex_person2], investors = Map.empty,
     lands = [5 \<mapsto> ex_land], lists = [11 \<mapsto> [], 12 \<mapsto> [5]]\<rparr>"

text \<open>
  Three variations of the city.  In \<open>ex_world_zero\<close> the target rate is 0, so the discount
  term \<open>(1 - m) * r_target / delta**T - p_dot\<close> is 0.  In \<open>ex_world_falling\<close> the expected
  appreciation is 1, so the discount term is negative; in \<open>ex_world_remote\<close> the parcel is,
  in addition, so far out that its net rent is negative.
\<close>

definition ex_world_zero :: world where
  "ex_world_zero = ex_world\<lparr>r_target := 0\<rparr>"

definition ex_world_falling :: world where
  "ex_world_falling = ex_world\<lparr>p_dot := 1\<rparr>"

definition ex_world_remote :: world where
  "ex_world_remote = ex_world\<lparr>p_dot := 1, lands := [5 \<mapsto> ex_land\<lparr>transport_cost := 59\<rparr>]\<rparr>"

text \<open>
  A parcel at the edge of the city, with a net rent of 0.04, and a newcomer with savings of
  0.1.
\<close>

definition ex_world_edge :: world where
  "ex_world_edge = ex_world\<lparr>
     persons := [1 \<mapsto> ex_person1\<lparr>savings := 1 / 10\<rparr>, 2 \<mapsto> ex_person2],
     lands := [5 \<mapsto> ex_land\<lparr>transport_cost := 249 / 25\<rparr>]\<rparr>"

text \<open>
  The sale of parcel 5 to Person 1, and a city in which the seller's list names the parcel
  twice.
\<close>

definition ex_allocation :: Allocation where
  "ex_allocation = \<lparr>a_property = 5, successful_bidder = Obj Person 1,
     highest_bid = 13242 / 125, second_highest_bid = 0, final_price = 13242 / 125\<rparr>"

definition ex_world_twice :: world where
  "ex_world_twice = ex_world\<lparr>lists := [11 \<mapsto> [], 12 \<mapsto> [5, 5]]\<rparr>"

text \<open>
  An auction: Persons 1, 3 and 4 have bid 100, 150 and 120 on parcel 5; parcel 6 has an
  entry in the bid book, but no bid.
\<close>

definition ex_person3 :: person where
  "ex_person3 = \<lparr>unique_id = 3, properties_owned = 13, init_working_period = 0,
     working_period = 0, savings = 100, residence = None, amenity = 0, wealth = 0, count = 0\<rparr>"

definition ex_person4 :: person where
  "ex_person4 = \<lparr>unique_id = 4, properties_owned = 14, init_working_period = 0,
     working_period = 0, savings = 100, residence = None, amenity = 0, wealth = 0, count = 0\<rparr>"

definition ex_bids :: "Bid list" where
  "ex_bids = [\<lparr>bidder = 1, property = 5, price = 100, mortgage = 0\<rparr>,
              \<lparr>bidder = 3, property = 5, price = 150, mortgage = 0\<rparr>,
              \<lparr>bidder = 4, property = 5, price = 120, mortgage = 0\<rparr>]"

definition ex_world_auction :: world where
  "ex_world_auction = ex_world\<lparr>
     workforce := \<lparr>newcomers = {1, 3, 4}, workers = {}, retiring = {2}\<rparr>,
     persons := [1 \<mapsto> ex_person1, 2 \<mapsto> ex_person2, 3 \<mapsto> ex_person3, 4 \<mapsto> ex_person4],
     lists := [11 \<mapsto> [], 12 \<mapsto> [5], 13 \<mapsto> [], 14 \<mapsto> []],
     bids := [(5, ex_bids), (6, [])]\<rparr>"

section \<open>Construction of bids\<close>

text \<open>
  C9.  The claim asks that a Bid with a negative price cannot be built.  The constructor
  checks the classes of bidder and property and that price and mortgage are numbers, and
  nothing else: a negative number passes.  Here a Bid of price -5 is built.
\<close>

theorem Bid_init_negative_price_accepted:
  "num_val (IntV (- 5)) < 0 \<and>
   Bid_init (Obj Person 1) (Obj Land 2) (IntV (- 5)) (FloatV 0) =
     Inr \<lparr>bidder = 1, property = 2, price = - 5, mortgage = 0\<rparr>"
  by (simp add: Bid_init_def)

text \<open>
  C9, as the code has it.  Building a Bid fails with ValueError when the bidder is no
  Person, the property no Land, or price or mortgage no number, and \<open>add_bid\<close> fails the same
  way on its three arguments; with a Person, a Land and two numbers the Bid is built and
  carries the price it was given, whatever its sign.
\<close>

theorem Bid_init_checks:
  "(\<not> isinstance b Person \<or> \<not> isinstance p Land \<or> \<not> is_numeric pr \<or> \<not> is_numeric mo
      \<longrightarrow> Bid_init b p pr mo = Inl ValueError) \<and>
   (\<not> isinstance b Person \<or> \<not> isinstance p Land \<or> \<not> is_numeric pr
      \<longrightarrow> add_bid w b p pr = Inl ValueError) \<and>
   (isinstance b Person \<and> isinstance p Land \<and> is_numeric pr \<and> is_numeric mo
      \<longrightarrow> (\<exists>bid. Bid_init b p pr mo = Inr bid \<and> price bid = num_val pr \<and>
                 mortgage bid = num_val mo))"
  by (cases b; cases p) (auto simp: Bid_init_def add_bid_def)

theorem Bid_init_checks_witness:
  "\<not> isinstance (Obj Investor 3) Person \<and>
   Bid_init (Obj Investor 3) (Obj Land 2) (IntV 5) (FloatV 0) = Inl ValueError \<and>
   add_bid ex_world (Obj Investor 3) (Obj Land 2) (IntV 5) = Inl ValueError \<and>
   (\<exists>bid. Bid_init (Obj Person 1) (Obj Land 2) (FloatV (- 5)) (FloatV 0) = Inr bid \<and>
          price bid = - 5 \<and> mortgage bid = 0)"
  using Bid_init_checks [of "Obj Investor 3" "Obj Land 2" "IntV 5" "FloatV 0" ex_world]
    Bid_init_checks [of "Obj Person 1" "Obj Land 2" "FloatV (- 5)" "FloatV 0" ex_world]
  by simp

section \<open>Registration with the scheduler\<close>

text \<open>
  C8.  The claim asks that \<open>add\<close> fails when the id is already registered for the breed.
  \<open>add\<close> assigns into both dictionaries without looking: in the example schedule the id 1
  is registered for the Person at address 1; adding another Person object with id 1
  succeeds, and the partition then holds the new object under that id.
\<close>

theorem add_replaces_registration:
  "map_of (agents_by_breed ex_schedule Person) 1 = Some ex_agent1 \<and>
   \<not> isl (add ex_schedule \<lparr>unique_id = 1, agent_class = Person, ref = 9\<rparr>) \<and>
   map_of (agents_by_breed (projr (add ex_schedule \<lparr>unique_id = 1, agent_class = Person, ref = 9\<rparr>))
      Person) 1 = Some \<lparr>unique_id = 1, agent_class = Person, ref = 9\<rparr>"
  by (simp add: add_def ex_schedule_def ex_agent1_def ex_agent2_def)

text \<open>
  C8, as the code has it.  \<open>add\<close> never fails: afterwards the registry and the partition of
  the agent's class both map its \<open>unique_id\<close> to the agent that was added, replacing any
  earlier registration under that id, and every other registration is as before.
\<close>

theorem add_always_succeeds:
  "\<exists>s'. add s a = Inr s' \<and>
     map_of (agents s') (unique_id a) = Some a \<and>
     map_of (agents_by_breed s' (agent_class a)) (unique_id a) = Some a \<and>
     (\<forall>k. k \<noteq> unique_id a \<longrightarrow> map_of (agents s') k = map_of (agents s) k) \<and>
     (\<forall>c k. (c, k) \<noteq> (agent_class a, unique_id a) \<longrightarrow>
         map_of (agents_by_breed s' c) k = map_of (agents_by_breed s c) k)"
  by (auto simp: add_def Let_def AList.update_conv')

theorem add_always_succeeds_witness:
  "\<exists>s'. add ex_schedule \<lparr>unique_id = 1, agent_class = Person, ref = 9\<rparr> = Inr s' \<and>
     map_of (agents s') 1 = Some \<lparr>unique_id = 1, agent_class = Person, ref = 9\<rparr> \<and>
     map_of (agents s') 2 = Some ex_agent2"
proof -
  have two: "map_of (agents ex_schedule) 2 = Some ex_agent2"
    by (simp add: ex_schedule_def)
  from add_always_succeeds [of ex_schedule "\<lparr>unique_id = 1, agent_class = Person, ref = 9\<rparr>"]
  obtain s' where s': "add ex_schedule \<lparr>unique_id = 1, agent_class = Person, ref = 9\<rparr> = Inr s'"
    "map_of (agents s') 1 = Some \<lparr>unique_id = 1, agent_class = Person, ref = 9\<rparr>"
    "\<forall>k. k \<noteq> 1 \<longrightarrow> map_of (agents s') k = map_of (agents ex_schedule) k"
    by auto
  from s'(3) two have "map_of (agents s') 2 = Some ex_agent2" by simp
  with s'(1,2) show ?thesis by blast
qed

section \<open>Bidding\<close>

text \<open>The error monad.\<close>

lemma bindE_Inr_iff: "bindE m f = Inr y \<longleftrightarrow> (\<exists>x. m = Inr x \<and> f x = Inr y)"
  by (cases m) (simp_all add: bindE_def)

lemma bindE_Inr [simp]: "bindE (Inr x) f = f x"
  by (simp add: bindE_def)

lemma bindE_Inl [simp]: "bindE (Inl e) f = Inl e"
  by (simp add: bindE_def)

text \<open>A price that compares greater than 0 is a positive real: neither \<open>inf\<close> nor \<open>nan\<close>.\<close>

lemma offer_positive_finite:
  assumes "np_less (Fin 0) (snd (offer m M S P))"
  shows "\<exists>x. snd (offer m M S P) = Fin x \<and> 0 < x"
  using assms
  by (cases P) (auto simp: offer_def py_min_def inf_times_def split: if_splits)

lemma add_bid_Person_Land:
  "add_bid w (Obj Person a) (Obj Land p) (FloatV x) =
     Inr (w\<lparr>bids := book_append \<lparr>bidder = a, property = p, price = x, mortgage = 0\<rparr> (bids w)\<rparr>)"
  by (simp add: add_bid_def Bid_init_def)

text \<open>One pass of the loop of \<open>Person.bid\<close> stores at most one bid, and with mortgage 0.\<close>

lemma bid_on_Inr:
  assumes "bid_on self S r m M rt sp w = Inr w'"
  shows "w' = w \<or> (\<exists>x. 0 < x \<and>
     w' = w\<lparr>bids := book_append \<lparr>bidder = self, property = sp, price = x, mortgage = 0\<rparr> (bids w)\<rparr>)"
proof -
  from assms obtain l where l: "lands w sp = Some l"
    by (auto simp: bid_on_def split: option.splits)
  with assms obtain P where P: "get_max_bid w (net_rent w l) r rt m (transport_cost l) = Inr P"
    by (auto simp: bid_on_def Let_def bindE_Inr_iff)
  show ?thesis
  proof (cases "np_less (Fin 0) (snd (offer m M S P))")
    case True
    from offer_positive_finite [OF this] obtain x where
      x: "snd (offer m M S P) = Fin x" "0 < x" by blast
    with assms l P True have
      "w' = w\<lparr>bids := book_append \<lparr>bidder = self, property = sp, price = x, mortgage = 0\<rparr> (bids w)\<rparr>"
      by (simp add: bid_on_def Let_def split_beta add_bid_Person_Land)
    with x show ?thesis by blast
  next
    case False
    with assms l P show ?thesis
      by (simp add: bid_on_def Let_def split_beta)
  qed
qed


text \<open>The example city: the newcomer bids 105.936 on parcel 5.\<close>

lemmas ex_defs = ex_world_def ex_firm_def ex_person1_def ex_person2_def ex_land_def
  ex_schedule_def ex_agent1_def ex_agent2_def

lemmas bid_defs = get_max_mortgage_def borrowing_rate_def individual_wealth_adjustment_def
  get_max_mortgage_share_def fdiv_def net_rent_def property_tax_def appraised_price_def
  warranted_price_def warranted_rent_def maintenance_def get_max_bid_def np_sub_def
  inf_times_def offer_def py_min_def spec_bid_price_def book_append_def bid_on_def
  add_bid_Person_Land Person_bid_def Let_def

lemma ex_mortgage: "get_max_mortgage ex_world ex_person1 = Inr (742 / 125)"
  by (simp add: ex_defs bid_defs)

lemma ex_Person_bid: "Person_bid ex_world 1 =
   Inr (ex_world\<lparr>bids := [(5, [\<lparr>bidder = 1, property = 5, price = 13242 / 125, mortgage = 0\<rparr>])]\<rparr>)"
  by (simp add: ex_defs bid_defs)

text \<open>Appending to the bid book keeps it free of mortgages.\<close>

lemma mortgage_free_update:
  "mortgage_free book \<Longrightarrow> list_all (\<lambda>b. mortgage b = 0) bs \<Longrightarrow>
   mortgage_free (AList.update k bs book)"
  by (induction book) (auto simp: mortgage_free_def)

lemma mortgage_free_lookup:
  "mortgage_free book \<Longrightarrow> map_of book k = Some bs \<Longrightarrow> list_all (\<lambda>b. mortgage b = 0) bs"
  by (auto simp: mortgage_free_def list_all_iff dest!: map_of_SomeD)

lemma mortgage_free_book_append:
  "mortgage_free book \<Longrightarrow> mortgage bid = 0 \<Longrightarrow> mortgage_free (book_append bid book)"
  by (auto simp: book_append_def Let_def intro!: mortgage_free_update
      dest: mortgage_free_lookup split: option.splits)

lemma add_bid_Inr:
  "add_bid w b p pr = Inr w' \<Longrightarrow>
     \<exists>a q. w' = w\<lparr>bids := book_append
                \<lparr>bidder = a, property = q, price = num_val pr, mortgage = 0\<rparr> (bids w)\<rparr>"
  by (cases b; cases p)
     (auto simp: add_bid_def Bid_init_def bindE_Inr_iff split: if_splits)

lemma bid_loop_mortgage_free:
  "bid_loop self S r m M rt ls w = Inr w' \<Longrightarrow> mortgage_free (bids w) \<Longrightarrow> mortgage_free (bids w')"
proof (induction ls arbitrary: w)
  case Nil
  then show ?case by simp
next
  case (Cons sp ls)
  from Cons.prems(1) obtain w1 where w1: "bid_on self S r m M rt sp w = Inr w1"
    and rest: "bid_loop self S r m M rt ls w1 = Inr w'"
    by (auto simp: bindE_Inr_iff)
  from bid_on_Inr [OF w1] Cons.prems(2) have "mortgage_free (bids w1)"
    by (auto simp: mortgage_free_book_append)
  with Cons.IH [OF rest] show ?case .
qed

text \<open>
  C10.  Every bid that \<open>add_bid\<close> stores has mortgage 0: a bid book free of mortgages stays
  so under \<open>add_bid\<close> and under a whole \<open>Person.bid\<close>, although the mortgage computed in
  \<open>Person.bid\<close> is not 0 in general (in the example it is 5.936).  The book starts empty and
  an Allocation has no mortgage field.
\<close>

theorem bid_book_mortgage_free:
  assumes "mortgage_free (bids w)"
  shows "(add_bid w b p pr = Inr w1 \<longrightarrow> mortgage_free (bids w1)) \<and>
         (Person_bid w self = Inr w2 \<longrightarrow> mortgage_free (bids w2))"
proof (intro conjI impI)
  assume "add_bid w b p pr = Inr w1"
  from add_bid_Inr [OF this] assms show "mortgage_free (bids w1)"
    by (auto simp: mortgage_free_book_append)
next
  assume run: "Person_bid w self = Inr w2"
  then obtain p' where p': "persons w self = Some p'"
    by (auto simp: Person_bid_def split: option.splits)
  with run obtain M where
    loop: "bid_loop self (savings p') (borrowing_rate w) get_max_mortgage_share M (r_target w)
                 (sale_listing w) w = Inr w2"
    by (auto simp: Person_bid_def Let_def bindE_Inr_iff)
  from bid_loop_mortgage_free [OF loop assms] show "mortgage_free (bids w2)" .
qed

theorem bid_book_mortgage_free_witness:
  "mortgage_free (bids ex_world) \<and>
   fst (offer get_max_mortgage_share (742 / 125) 100 (Fin 400)) = Fin (742 / 125) \<and>
   bids (projr (Person_bid ex_world 1)) \<noteq> [] \<and>
   mortgage_free (bids (projr (Person_bid ex_world 1)))"
proof -
  have free: "mortgage_free (bids ex_world)"
    by (simp add: ex_world_def mortgage_free_def)
  have "mortgage_free (bids (projr (Person_bid ex_world 1)))"
    using bid_book_mortgage_free [OF free, of NoneV NoneV NoneV ex_world 1
        "projr (Person_bid ex_world 1)"] ex_Person_bid
    by simp
  moreover have "bids (projr (Person_bid ex_world 1)) \<noteq> []"
    using ex_Person_bid by simp
  moreover have "fst (offer get_max_mortgage_share (742 / 125) 100 (Fin 400)) = Fin (742 / 125)"
    by (simp add: offer_def get_max_mortgage_share_def)
  ultimately show ?thesis using free by simp
qed



section \<open>A non-positive discount term\<close>

lemmas ex_var_defs = ex_world_zero_def ex_world_falling_def ex_world_remote_def


lemma np_div_finite: "b \<noteq> 0 \<Longrightarrow> np_div (Fin a) (Fin b) = Fin (a / b)"
  by simp



section \<open>Newcomers without a residence\<close>

text \<open>Removal from the scheduler of an agent that is registered.\<close>

lemma dict_del_present:
  "k \<in> fst ` set d \<Longrightarrow> dict_del k d = Inr (AList.delete k d)"
  by (simp add: dict_del_def)

lemma keys_delete: "fst ` set (AList.delete k d) = fst ` set d - {k}"
  by (auto simp: AList.delete_eq image_iff)

lemma remove_registered:
  assumes "unique_id a \<in> fst ` set (agents s)"
    and "unique_id a \<in> fst ` set (agents_by_breed s (agent_class a))"
  shows "remove s a = Inr (s\<lparr>agents := AList.delete (unique_id a) (agents s),
            agents_by_breed := (agents_by_breed s)
              (agent_class a := AList.delete (unique_id a) (agents_by_breed s (agent_class a)))\<rparr>)"
  using assms by (simp add: remove_def dict_del_present Let_def)

lemma Person_remove_registered:
  assumes "persons w self = Some p"
    and "unique_id p \<in> fst ` set (agents (schedule w))"
    and "unique_id p \<in> fst ` set (agents_by_breed (schedule w) Person)"
  shows "Person_remove w self =
     Inr (w\<lparr>removed_agents := removed_agents w + 1,
            workforce := remove_from_all (unique_id p) (workforce w),
            schedule := (schedule w)\<lparr>agents := AList.delete (unique_id p) (agents (schedule w)),
               agents_by_breed := (agents_by_breed (schedule w))
                 (Person := AList.delete (unique_id p) (agents_by_breed (schedule w) Person))\<rparr>,
            grid := (grid w)(self := None)\<rparr>)"
  using assms by (simp add: Person_remove_def remove_registered Let_def)

text \<open>
  C4.  A Person of the simulation (registered with the scheduler, in the registry and in
  the partition of its class) whose \<open>unique_id\<close> is among the newcomers and who has no
  residence is removed by its own \<open>step\<close>: the step returns, afterwards the id is in neither
  dictionary of the scheduler nor among the newcomers, and the count of removed agents has
  grown by one.  The test \<open>count > 0\<close> holds because the step has just incremented the
  counter.
\<close>

theorem newcomer_without_residence_removed:
  assumes "persons w self = Some p"
    and "unique_id p \<in> newcomers (workforce w)"
    and "residence p = None"
    and "unique_id p \<in> fst ` set (agents (schedule w))"
    and "unique_id p \<in> fst ` set (agents_by_breed (schedule w) Person)"
  shows "\<exists>w'. Person_step w self = Inr w' \<and>
           unique_id p \<notin> fst ` set (agents (schedule w')) \<and>
           unique_id p \<notin> fst ` set (agents_by_breed (schedule w') Person) \<and>
           removed_agents w' = removed_agents w + 1 \<and>
           unique_id p \<notin> newcomers (workforce w')"
proof -
  let ?p = "p\<lparr>count := count p + 1, working_period := working_period p + 1\<rparr>"
  let ?w = "w\<lparr>persons := (persons w)(self \<mapsto> ?p)\<rparr>"
  have step: "Person_step w self = Person_remove ?w self"
    using assms(1-3) by (simp add: Person_step_def Let_def)
  have "persons ?w self = Some ?p" by simp
  from Person_remove_registered [OF this] assms(4,5)
  have "Person_remove ?w self =
     Inr (?w\<lparr>removed_agents := removed_agents w + 1,
            workforce := remove_from_all (unique_id p) (workforce w),
            schedule := (schedule w)\<lparr>agents := AList.delete (unique_id p) (agents (schedule w)),
               agents_by_breed := (agents_by_breed (schedule w))
                 (Person := AList.delete (unique_id p) (agents_by_breed (schedule w) Person))\<rparr>,
            grid := (grid w)(self := None)\<rparr>)"
    by simp
  with step show ?thesis
    by (simp add: keys_delete remove_from_all_def workforce_remove_def)
qed

theorem newcomer_without_residence_removed_witness:
  "unique_id ex_person1 \<in> newcomers (workforce ex_world) \<and> residence ex_person1 = None \<and>
   unique_id ex_person1 \<in> fst ` set (agents (schedule ex_world)) \<and>
   (\<exists>w'. Person_step ex_world 1 = Inr w' \<and>
           unique_id ex_person1 \<notin> fst ` set (agents (schedule w')) \<and>
           unique_id ex_person1 \<notin> fst ` set (agents_by_breed (schedule w') Person) \<and>
           removed_agents w' = 1)"
proof -
  have 1: "persons ex_world 1 = Some ex_person1" by (simp add: ex_defs)
  have 2: "unique_id ex_person1 \<in> newcomers (workforce ex_world)" by (simp add: ex_defs)
  have 3: "residence ex_person1 = None" by (simp add: ex_defs)
  have 4: "unique_id ex_person1 \<in> fst ` set (agents (schedule ex_world))" by (simp add: ex_defs)
  have 5: "unique_id ex_person1 \<in> fst ` set (agents_by_breed (schedule ex_world) Person)"
    by (simp add: ex_defs)
  have 6: "removed_agents ex_world = 0" by (simp add: ex_defs)
  from newcomer_without_residence_removed [OF 1 2 3 4 5] 2 3 4 6 show ?thesis by auto
qed

section \<open>The step of the firm\<close>

text \<open>What each block of \<open>Firm.step\<close> has done when it returns.\<close>

lemma fdiv_Inr_iff: "fdiv a b = Inr q \<longleftrightarrow> b \<noteq> 0 \<and> q = a / b"
  by (auto simp: fdiv_def)

lemma production_Inr_iff:
  "production c f = Inr y \<longleftrightarrow>
     (\<exists>g a b. fpow (agglomeration_population f) (gamma f) = Inr g \<and>
        fpow (firm_k f) (alpha f) = Inr a \<and> fpow (firm_n f) (beta f) = Inr b \<and>
        y = c * g * a * b)"
  by (auto simp: production_def bindE_Inr_iff)

lemma get_population_and_output_Inr:
  assumes "get_population_and_output w f = Inr f1"
  shows "\<exists>g a b. firm_F f \<noteq> 0 \<and>
     fpow (firm_mult f * get_N w + seed_population f) (gamma f) = Inr g \<and>
     fpow (firm_k f) (alpha f) = Inr a \<and>
     fpow (get_N w / firm_F f) (beta f) = Inr b \<and>
     f1 = f\<lparr>firm_N := get_N w,
            agglomeration_population := firm_mult f * get_N w + seed_population f,
            firm_n := get_N w / firm_F f,
            firm_y := firm_A f * g * a * b\<rparr>"
  using assms
  by (auto simp: get_population_and_output_def Let_def bindE_Inr_iff fdiv_Inr_iff
      production_Inr_iff)

lemma adjust_wage_Inr:
  assumes "adjust_wage f = Inr f1"
  shows "firm_n f \<noteq> 0 \<and> 1 + overhead f \<noteq> 0 \<and>
     f1 = f\<lparr>MPL := beta f * firm_y f / firm_n f,
            wage_target := subsistence_wage f
               + (beta f * firm_y f / firm_n f - subsistence_wage f) / (1 + overhead f),
            wage := (1 - adjw f) * wage f + adjw f * (subsistence_wage f
               + (beta f * firm_y f / firm_n f - subsistence_wage f) / (1 + overhead f))\<rparr>"
  using assms
  by (auto simp: adjust_wage_def Let_def bindE_Inr_iff fdiv_Inr_iff)

lemma adjust_number_of_firms_Inr:
  assumes "adjust_number_of_firms f = Inr f1"
  shows "wage f \<noteq> 0 \<and>
     f1 = f\<lparr>F_target := firm_F f * wage_target f / wage f,
            firm_F := (1 - adjF f) * firm_F f + adjF f * (firm_F f * wage_target f / wage f)\<rparr>"
  using assms
  by (auto simp: adjust_number_of_firms_def Let_def bindE_Inr_iff fdiv_Inr_iff)

lemma adjust_capital_stock_Inr:
  assumes "adjust_capital_stock f = Inr f1"
  shows "\<exists>g a b. firm_r f \<noteq> 0 \<and>
     fpow (agglomeration_population f) (gamma f) = Inr g \<and>
     fpow (firm_k f) (alpha f) = Inr a \<and> fpow (firm_n f) (beta f) = Inr b \<and>
     f1 = f\<lparr>y_target := price_of_output f * firm_A f * g * a * b,
            k_target := alpha f * (price_of_output f * firm_A f * g * a * b) / firm_r f,
            firm_k := (1 - adjk f) * firm_k f
               + adjk f * (alpha f * (price_of_output f * firm_A f * g * a * b) / firm_r f)\<rparr>"
  using assms
  by (auto simp: adjust_capital_stock_def Let_def bindE_Inr_iff fdiv_Inr_iff production_Inr_iff)

text \<open>
  C6.  When \<open>Firm.step\<close> returns, every channel has been updated once, in the order
  population, output, wage, firm count, capital, and each update reads the values computed
  before it in the same step: the population \<open>N\<close> and the agglomeration population are
  recomputed from the worker count; labour per firm \<open>n\<close> is the new \<open>N\<close> over the old firm
  count; the output \<open>y\<close> is \<open>A\<close> times the three powers \<open>g\<close>, \<open>a\<close>, \<open>b\<close> of the new agglomeration
  population, the old capital and the new \<open>n\<close>; the wage target comes from the marginal
  product of labour \<open>beta * y / n\<close> of the new output; the wage moves the fraction \<open>adjw\<close>
  from the old wage to that target; the firm-count target uses the new wage and the firm
  count moves the fraction \<open>adjF\<close> toward it; the capital target uses the same three powers
  and capital moves the fraction \<open>adjk\<close> toward it.  Nothing but the firm changes.
\<close>

theorem Firm_step_updates:
  assumes "Firm_step w = Inr w'"
  shows "\<exists>g a b.
     firm_N (the_firm w') = get_N w \<and>
     agglomeration_population (the_firm w') =
        firm_mult (the_firm w) * firm_N (the_firm w') + seed_population (the_firm w) \<and>
     firm_F (the_firm w) \<noteq> 0 \<and>
     firm_n (the_firm w') = firm_N (the_firm w') / firm_F (the_firm w) \<and>
     fpow (agglomeration_population (the_firm w')) (gamma (the_firm w)) = Inr g \<and>
     fpow (firm_k (the_firm w)) (alpha (the_firm w)) = Inr a \<and>
     fpow (firm_n (the_firm w')) (beta (the_firm w)) = Inr b \<and>
     firm_y (the_firm w') = firm_A (the_firm w) * g * a * b \<and>
     firm_n (the_firm w') \<noteq> 0 \<and>
     MPL (the_firm w') = beta (the_firm w) * firm_y (the_firm w') / firm_n (the_firm w') \<and>
     1 + overhead (the_firm w) \<noteq> 0 \<and>
     wage_target (the_firm w') = subsistence_wage (the_firm w)
        + (MPL (the_firm w') - subsistence_wage (the_firm w)) / (1 + overhead (the_firm w)) \<and>
     wage (the_firm w') = (1 - adjw (the_firm w)) * wage (the_firm w)
        + adjw (the_firm w) * wage_target (the_firm w') \<and>
     wage_premium (the_firm w') = wage (the_firm w') - subsistence_wage (the_firm w) \<and>
     wage (the_firm w') \<noteq> 0 \<and>
     F_target (the_firm w') = firm_F (the_firm w) * wage_target (the_firm w') / wage (the_firm w') \<and>
     firm_F (the_firm w') = (1 - adjF (the_firm w)) * firm_F (the_firm w)
        + adjF (the_firm w) * F_target (the_firm w') \<and>
     y_target (the_firm w') = price_of_output (the_firm w) * firm_A (the_firm w) * g * a * b \<and>
     firm_r (the_firm w) \<noteq> 0 \<and>
     k_target (the_firm w') = alpha (the_firm w) * y_target (the_firm w') / firm_r (the_firm w) \<and>
     firm_k (the_firm w') = (1 - adjk (the_firm w)) * firm_k (the_firm w)
        + adjk (the_firm w) * k_target (the_firm w') \<and>
     w' = w\<lparr>the_firm := the_firm w'\<rparr>"
proof -
  from assms obtain f1 f2 f3 f4 where
    1: "get_population_and_output w (the_firm w) = Inr f1" and
    2: "adjust_wage f1 = Inr f2" and
    3: "adjust_number_of_firms (find_population_at_new_wage f2) = Inr f3" and
    4: "adjust_capital_stock f3 = Inr f4" and
    w': "w' = w\<lparr>the_firm := f4\<rparr>"
    by (auto simp: Firm_step_def bindE_Inr_iff)
  from get_population_and_output_Inr [OF 1] obtain g a b where
    F: "firm_F (the_firm w) \<noteq> 0" and
    g: "fpow (firm_mult (the_firm w) * get_N w + seed_population (the_firm w)) (gamma (the_firm w)) = Inr g" and
    a: "fpow (firm_k (the_firm w)) (alpha (the_firm w)) = Inr a" and
    b: "fpow (get_N w / firm_F (the_firm w)) (beta (the_firm w)) = Inr b" and
    f1: "f1 = (the_firm w)\<lparr>firm_N := get_N w,
            agglomeration_population := firm_mult (the_firm w) * get_N w + seed_population (the_firm w),
            firm_n := get_N w / firm_F (the_firm w),
            firm_y := firm_A (the_firm w) * g * a * b\<rparr>"
    by blast
  note f2 = adjust_wage_Inr [OF 2]
  note f3 = adjust_number_of_firms_Inr [OF 3]
  from adjust_capital_stock_Inr [OF 4] obtain g' a' b' where
    r: "firm_r f3 \<noteq> 0" and
    g': "fpow (agglomeration_population f3) (gamma f3) = Inr g'" and
    a': "fpow (firm_k f3) (alpha f3) = Inr a'" and
    b': "fpow (firm_n f3) (beta f3) = Inr b'" and
    f4: "f4 = f3\<lparr>y_target := price_of_output f3 * firm_A f3 * g' * a' * b',
            k_target := alpha f3 * (price_of_output f3 * firm_A f3 * g' * a' * b') / firm_r f3,
            firm_k := (1 - adjk f3) * firm_k f3
               + adjk f3 * (alpha f3 * (price_of_output f3 * firm_A f3 * g' * a' * b') / firm_r f3)\<rparr>"
    by blast
  have f3_eq: "f3 = (find_population_at_new_wage f2)\<lparr>
            F_target := firm_F f2 * wage_target f2 / wage f2,
            firm_F := (1 - adjF f2) * firm_F f2 + adjF f2 * (firm_F f2 * wage_target f2 / wage f2)\<rparr>"
    using f3 by (simp add: find_population_at_new_wage_def)
  have same: "g' = g" "a' = a" "b' = b"
    using g' a' b' g a b f2 by (simp_all add: f3_eq find_population_at_new_wage_def f1)
  show ?thesis
    apply (rule exI [of _ g], rule exI [of _ a], rule exI [of _ b])
    using F g a b r f2 f3
    apply (simp add: w' f4 same f3_eq find_population_at_new_wage_def f1)
    done
qed


text \<open>The firm of the example city.\<close>

lemmas firm_defs = Firm_step_def get_population_and_output_def adjust_wage_def
  find_population_at_new_wage_def adjust_number_of_firms_def adjust_capital_stock_def
  production_def fpow_def fdiv_def get_N_def get_agent_count_def

lemma ex_Firm_step: "\<exists>w'. Firm_step ex_world = Inr w'"
  by (simp add: firm_defs ex_defs)

theorem Firm_step_updates_witness:
  "\<exists>w'. Firm_step ex_world = Inr w' \<and> firm_N (the_firm w') = 1 \<and>
     agglomeration_population (the_firm w') = 2 \<and> firm_n (the_firm w') = 1 \<and>
     firm_y (the_firm w') = 2 \<and> wage_target (the_firm w') = 2 \<and>
     wage (the_firm w') = 13 / 2 \<and> F_target (the_firm w') = 4 / 13 \<and>
     firm_F (the_firm w') = 17 / 26 \<and> k_target (the_firm w') = 2 \<and> firm_k (the_firm w') = 2"
proof -
  from ex_Firm_step obtain w' where w': "Firm_step ex_world = Inr w'" ..
  have N: "get_N ex_world = 1"
    by (simp add: get_N_def get_agent_count_def ex_defs)
  have f: "the_firm ex_world = ex_firm" by (simp add: ex_world_def)
  from Firm_step_updates [OF w'] obtain g a b where
    h1: "firm_N (the_firm w') = 1" and
    h2: "agglomeration_population (the_firm w') = firm_N (the_firm w') + 1" and
    h3: "firm_n (the_firm w') = firm_N (the_firm w')" and
    h4: "fpow (agglomeration_population (the_firm w')) 0 = Inr g" and
    h5: "fpow 2 1 = Inr a" and
    h6: "fpow (firm_n (the_firm w')) 1 = Inr b" and
    h7: "firm_y (the_firm w') = g * a * b" and
    h8: "MPL (the_firm w') = firm_y (the_firm w') / firm_n (the_firm w')" and
    h9: "wage_target (the_firm w') = 1 + (MPL (the_firm w') - 1)" and
    h10: "wage (the_firm w') = 11 / 2 + wage_target (the_firm w') / 2" and
    h11: "F_target (the_firm w') = wage_target (the_firm w') / wage (the_firm w')" and
    h12: "firm_F (the_firm w') = 1 / 2 + F_target (the_firm w') / 2" and
    h13: "y_target (the_firm w') = g * a * b" and
    h14: "k_target (the_firm w') = y_target (the_firm w')" and
    h15: "firm_k (the_firm w') = 1 + k_target (the_firm w') / 2"
    unfolding N f by (auto simp: ex_firm_def)
  have agg: "agglomeration_population (the_firm w') = 2" using h1 h2 by simp
  have n: "firm_n (the_firm w') = 1" using h1 h3 by simp
  have g: "g = 1" using h4 by (simp add: agg fpow_def)
  have a: "a = 2" using h5 by (simp add: fpow_def)
  have b: "b = 1" using h6 by (simp add: n fpow_def)
  have y: "firm_y (the_firm w') = 2" using h7 by (simp add: g a b)
  have wt: "wage_target (the_firm w') = 2" using h8 h9 by (simp add: y n)
  have wg: "wage (the_firm w') = 13 / 2" using h10 by (simp add: wt)
  have Ft: "F_target (the_firm w') = 4 / 13" using h11 by (simp add: wt wg)
  have F: "firm_F (the_firm w') = 17 / 26" using h12 by (simp add: Ft)
  have kt: "k_target (the_firm w') = 2" using h13 h14 by (simp add: g a b)
  have k: "firm_k (the_firm w') = 2" using h15 by (simp add: kt)
  from w' h1 agg n y wt wg Ft F kt k show ?thesis by blast
qed

section \<open>Transfer of ownership\<close>

text \<open>
  The purchase and departure handlers touch neither a list of owned properties nor an owner.
\<close>

lemma get_properties_owned_cong:
  assumes "\<And>a. map_option properties_owned (persons w' a) = map_option properties_owned (persons w a)"
    and "investors w' = investors w"
  shows "get_properties_owned w' x = get_properties_owned w x"
proof (cases x)
  case (Obj c a)
  from assms(1) [of a] assms(2) show ?thesis
    by (cases "persons w a"; cases "persons w' a")
       (auto simp: get_properties_owned_def Obj)
qed (simp_all add: get_properties_owned_def)

lemma same_titles_refl: "same_titles w w"
  by (simp add: same_titles_def)

lemma same_titles_trans: "same_titles w w1 \<Longrightarrow> same_titles w1 w2 \<Longrightarrow> same_titles w w2"
  by (simp add: same_titles_def)

lemma same_titles_owned_by: "same_titles w w' \<Longrightarrow> owned_by w' x = owned_by w x"
  by (simp add: same_titles_def owned_by_def split: sum.splits)

lemma handle_investor_purchase_titles:
  "handle_investor_purchase w b P = Inr w' \<Longrightarrow> same_titles w w'"
  by (auto simp: handle_investor_purchase_def same_titles_def intro: get_properties_owned_cong)

lemma handle_person_purchase_titles:
  assumes "handle_person_purchase w b P fp = Inr w'"
  shows "same_titles w w'"
proof -
  from assms obtain l p where l: "lands w P = Some l" and p: "persons w b = Some p"
    by (auto simp: handle_person_purchase_def split: option.splits)
  let ?w = "w\<lparr>lands := (lands w)(P \<mapsto> l\<lparr>resident := Obj Person b\<rparr>),
              persons := (persons w)(b \<mapsto> p\<lparr>residence := Some P\<rparr>),
              grid := (grid w)(b \<mapsto> pos l)\<rparr>"
  from assms l p have w': "w' = ?w \<or>
      w' = ?w\<lparr>workforce := (workforce w)
               \<lparr>newcomers := workforce_remove (unique_id p) (newcomers (workforce w))\<rparr>\<rparr>"
    by (auto simp: handle_person_purchase_def Let_def split: if_splits)
  have "get_properties_owned ?w x = get_properties_owned w x" for x
    by (rule get_properties_owned_cong) (simp_all add: p)
  moreover have "get_properties_owned (?w\<lparr>workforce := wf'\<rparr>) x = get_properties_owned w x" for x wf'
    by (rule get_properties_owned_cong) (simp_all add: p)
  ultimately show ?thesis
    using w' l by (auto simp: same_titles_def)
qed

lemma Person_remove_titles:
  assumes "Person_remove w s = Inr w'"
  shows "same_titles w w'"
proof -
  from assms obtain p :: person and sch where "w' = w\<lparr>removed_agents := removed_agents w + 1,
       workforce := remove_from_all (unique_id p) (workforce w), schedule := sch,
       grid := (grid w)(s := None)\<rparr>"
    by (auto simp: Person_remove_def Let_def bindE_Inr_iff split: option.splits)
  then show ?thesis
    by (auto simp: same_titles_def intro: get_properties_owned_cong)
qed

lemma handle_seller_departure_titles:
  "handle_seller_departure w s = Inr w' \<Longrightarrow> same_titles w w'"
  by (auto simp: handle_seller_departure_def same_titles_refl Person_remove_titles
      split: option.splits if_splits)


text \<open>The transfer itself: what it writes, what it leaves alone.\<close>

lemma same_titles_keeps: "same_titles w w' \<Longrightarrow> keeps_title P w w'"
  by (simp add: same_titles_def keeps_title_def)

lemma keeps_title_refl: "keeps_title P w w"
  by (simp add: keeps_title_def)

lemma keeps_title_trans: "keeps_title P w w1 \<Longrightarrow> keeps_title P w1 w2 \<Longrightarrow> keeps_title P w w2"
  by (simp add: keeps_title_def)

lemma get_properties_owned_lists_lands [simp]:
  "get_properties_owned (w\<lparr>lists := L\<rparr>) x = get_properties_owned w x"
  "get_properties_owned (w\<lparr>lands := A\<rparr>) x = get_properties_owned w x"
  by (rule get_properties_owned_cong; simp)+

lemma transfer_property_Inr:
  assumes "transfer_property w seller buyer P = Inr w1"
  shows "\<exists>lb ls ys xs l. get_properties_owned w buyer = Inr lb \<and> lists w lb = Some ys \<and>
     get_properties_owned w seller = Inr ls \<and> ((lists w)(lb \<mapsto> ys @ [P])) ls = Some xs \<and>
     P \<in> set xs \<and> lands w P = Some l \<and>
     w1 = w\<lparr>lists := (lists w)(lb \<mapsto> ys @ [P], ls \<mapsto> remove1 P xs),
            lands := (lands w)(P \<mapsto> l\<lparr>owner := buyer\<rparr>)\<rparr>"
proof -
  from assms obtain lb wa ls wb where
    lb: "get_properties_owned w buyer = Inr lb" and
    wa: "list_append lb P w = Inr wa" and
    ls: "get_properties_owned wa seller = Inr ls" and
    wb: "list_remove ls P wa = Inr wb" and
    w1: "(case lands wb P of None \<Rightarrow> Inl AttributeError
          | Some l \<Rightarrow> Inr (wb\<lparr>lands := (lands wb)(P \<mapsto> l\<lparr>owner := buyer\<rparr>)\<rparr>)) = Inr w1"
    unfolding transfer_property_def bindE_Inr_iff by blast
  from wa obtain ys where ys: "lists w lb = Some ys"
    and wa_eq: "wa = w\<lparr>lists := (lists w)(lb \<mapsto> ys @ [P])\<rparr>"
    by (auto simp: list_append_def split: option.splits)
  from wb obtain xs where xs: "lists wa ls = Some xs" and P: "P \<in> set xs"
    and wb_eq: "wb = wa\<lparr>lists := (lists wa)(ls \<mapsto> remove1 P xs)\<rparr>"
    by (auto simp: list_remove_def split: option.splits if_splits)
  from w1 obtain l where l: "lands wb P = Some l"
    and w1_eq: "w1 = wb\<lparr>lands := (lands wb)(P \<mapsto> l\<lparr>owner := buyer\<rparr>)\<rparr>"
    by (auto split: option.splits)
  from ls have ls': "get_properties_owned w seller = Inr ls" by (simp add: wa_eq)
  from xs have xs': "((lists w)(lb \<mapsto> ys @ [P])) ls = Some xs" by (simp add: wa_eq)
  from l have l': "lands w P = Some l" by (simp add: wb_eq wa_eq)
  have "w1 = w\<lparr>lists := (lists w)(lb \<mapsto> ys @ [P], ls \<mapsto> remove1 P xs),
            lands := (lands w)(P \<mapsto> l\<lparr>owner := buyer\<rparr>)\<rparr>"
    by (simp add: w1_eq wb_eq wa_eq)
  with lb ys ls' xs' P l' show ?thesis by blast
qed

lemma count_list_remove1_other: "x \<noteq> y \<Longrightarrow> count_list (remove1 x xs) y = count_list xs y"
  by (induction xs) auto

lemma count_list_remove1_same: "x \<in> set xs \<Longrightarrow> count_list (remove1 x xs) x = count_list xs x - 1"
  by (induction xs) auto

lemma transfer_property_other:
  assumes "transfer_property w seller buyer Q = Inr w1" and "Q \<noteq> P"
  shows "keeps_title P w w1"
proof -
  from transfer_property_Inr [OF assms(1)] obtain lb ls ys xs l where
    xs: "((lists w)(lb \<mapsto> ys @ [Q])) ls = Some xs" and ys: "lists w lb = Some ys" and
    w1: "w1 = w\<lparr>lists := (lists w)(lb \<mapsto> ys @ [Q], ls \<mapsto> remove1 Q xs),
            lands := (lands w)(Q \<mapsto> l\<lparr>owner := buyer\<rparr>)\<rparr>"
    by blast
  have "map_option (\<lambda>xs. count_list xs P) (lists w1 la)
             = map_option (\<lambda>xs. count_list xs P) (lists w la)" for la
    using xs ys assms(2)
    by (auto simp: w1 count_list_remove1_other split: if_splits)
  then show ?thesis
    using assms(2) by (simp add: keeps_title_def w1)
qed

lemma transfer_property_same:
  assumes "transfer_property w seller buyer P = Inr w1"
    and "owned_by w seller = Some xs" and "count_list xs P = 1"
    and "owned_by w buyer = Some ys" and "count_list ys P = 0"
  shows "\<exists>xs' ys' l'. owned_by w1 seller = Some xs' \<and> count_list xs' P = 0 \<and>
           owned_by w1 buyer = Some ys' \<and> count_list ys' P = 1 \<and>
           lands w1 P = Some l' \<and> owner l' = buyer"
proof -
  from transfer_property_Inr [OF assms(1)] obtain lb ls ys0 xs0 l where
    lb: "get_properties_owned w buyer = Inr lb" and ys0: "lists w lb = Some ys0" and
    ls: "get_properties_owned w seller = Inr ls" and
    xs0: "((lists w)(lb \<mapsto> ys0 @ [P])) ls = Some xs0" and P: "P \<in> set xs0" and
    w1: "w1 = w\<lparr>lists := (lists w)(lb \<mapsto> ys0 @ [P], ls \<mapsto> remove1 P xs0),
            lands := (lands w)(P \<mapsto> l\<lparr>owner := buyer\<rparr>)\<rparr>"
    by blast
  from assms(4) lb ys0 have ys_eq: "ys0 = ys" by (simp add: owned_by_def)
  from assms(2) ls have xs_w: "lists w ls = Some xs" by (simp add: owned_by_def)
  have neq: "lb \<noteq> ls"
  proof
    assume "lb = ls"
    with xs_w ys0 ys_eq have "xs = ys" by simp
    with assms(3,5) show False by simp
  qed
  with xs0 xs_w have xs_eq: "xs0 = xs" by simp
  have s: "owned_by w1 seller = Some (remove1 P xs)"
    using ls by (simp add: owned_by_def w1 xs_eq)
  have b: "owned_by w1 buyer = Some (ys @ [P])"
    using lb neq by (simp add: owned_by_def w1 ys_eq)
  have "count_list (remove1 P xs) P = 0"
    using P assms(3) by (simp add: count_list_remove1_same xs_eq)
  moreover have "count_list (ys @ [P]) P = 1"
    using assms(5) by simp
  moreover have "lands w1 P = Some (l\<lparr>owner := buyer\<rparr>)" by (simp add: w1)
  ultimately show ?thesis using s b by simp
qed


text \<open>One settled allocation, and a list of them.\<close>

lemma complete_transaction_Inr:
  assumes "complete_transaction w a = Inr w'"
  shows "\<exists>l w1. lands w (a_property a) = Some l \<and>
           transfer_property w (owner l) (successful_bidder a) (a_property a) = Inr w1 \<and>
           same_titles w1 w'"
proof -
  from assms obtain l where l: "lands w (a_property a) = Some l"
    by (auto simp: complete_transaction_def split: option.splits)
  with assms obtain w1 w2 where
    w1: "transfer_property w (owner l) (successful_bidder a) (a_property a) = Inr w1" and
    w2: "(case successful_bidder a of
            Obj c b \<Rightarrow>
              if c = Investor then handle_investor_purchase w1 (successful_bidder a) (a_property a)
              else if c = Person then handle_person_purchase w1 b (a_property a) (final_price a)
              else Inr w1
          | _ \<Rightarrow> Inr w1) = Inr w2" and
    w': "(case owner l of
            Obj c s \<Rightarrow> if c = Person then handle_seller_departure w2 s else Inr w2
          | _ \<Rightarrow> Inr w2) = Inr w'"
    by (auto simp: complete_transaction_def Let_def bindE_Inr_iff)
  from w2 have t12: "same_titles w1 w2"
    by (auto simp: same_titles_refl handle_investor_purchase_titles handle_person_purchase_titles
        split: pyval.splits if_splits)
  from w' have t23: "same_titles w2 w'"
    by (auto simp: same_titles_refl handle_seller_departure_titles split: pyval.splits if_splits)
  from l w1 same_titles_trans [OF t12 t23] show ?thesis by blast
qed

lemma complete_transaction_other:
  assumes "complete_transaction w a = Inr w'" and "a_property a \<noteq> P"
  shows "keeps_title P w w'"
proof -
  from complete_transaction_Inr [OF assms(1)] obtain l :: land and w1 where
    "transfer_property w (owner l) (successful_bidder a) (a_property a) = Inr w1"
    "same_titles w1 w'"
    by blast
  with assms(2) show ?thesis
    by (blast intro: keeps_title_trans transfer_property_other same_titles_keeps)
qed

lemma complete_transactions_other:
  "complete_transactions w as = Inr w' \<Longrightarrow> \<forall>a\<in>set as. a_property a \<noteq> P \<Longrightarrow> keeps_title P w w'"
proof (induction as arbitrary: w)
  case Nil
  then show ?case by (simp add: keeps_title_refl)
next
  case (Cons a as)
  from Cons.prems(1) obtain w1 where w1: "complete_transaction w a = Inr w1"
    and rest: "complete_transactions w1 as = Inr w'"
    by (auto simp: bindE_Inr_iff)
  from Cons.prems(2) have "a_property a \<noteq> P" "\<forall>a\<in>set as. a_property a \<noteq> P" by simp_all
  with w1 rest Cons.IH show ?case
    by (blast intro: keeps_title_trans complete_transaction_other)
qed

text \<open>What the claim speaks of, in terms of counts, and its transport along \<open>keeps_title\<close>.\<close>

lemma keeps_title_owned_by:
  assumes "keeps_title P w w'" and "owned_by w x = Some xs"
  shows "\<exists>xs'. owned_by w' x = Some xs' \<and> count_list xs' P = count_list xs P"
proof -
  from assms(2) obtain la where la: "get_properties_owned w x = Inr la" and xs: "lists w la = Some xs"
    by (auto simp: owned_by_def split: sum.splits)
  from assms(1) la have la': "get_properties_owned w' x = Inr la"
    by (simp add: keeps_title_def)
  from assms(1) have "map_option (\<lambda>xs. count_list xs P) (lists w' la)
             = map_option (\<lambda>xs. count_list xs P) (lists w la)"
    by (simp add: keeps_title_def)
  with xs obtain xs' where "lists w' la = Some xs'" "count_list xs' P = count_list xs P"
    by (cases "lists w' la") auto
  with la' show ?thesis by (simp add: owned_by_def)
qed

lemma keeps_title_owner:
  assumes "keeps_title P w w'" and "lands w P = Some l"
  shows "\<exists>l'. lands w' P = Some l' \<and> owner l' = owner l"
  using assms by (cases "lands w' P") (auto simp: keeps_title_def)

lemma complete_transaction_same:
  assumes "complete_transaction w a = Inr w'"
    and "lands w (a_property a) = Some l"
    and "owned_by w (owner l) = Some xs" and "count_list xs (a_property a) = 1"
    and "owned_by w (successful_bidder a) = Some ys" and "count_list ys (a_property a) = 0"
  shows "\<exists>xs' ys' l'. owned_by w' (owner l) = Some xs' \<and> count_list xs' (a_property a) = 0 \<and>
           owned_by w' (successful_bidder a) = Some ys' \<and> count_list ys' (a_property a) = 1 \<and>
           lands w' (a_property a) = Some l' \<and> owner l' = successful_bidder a"
proof -
  from complete_transaction_Inr [OF assms(1)] assms(2) obtain w1 where
    w1: "transfer_property w (owner l) (successful_bidder a) (a_property a) = Inr w1" and
    t: "same_titles w1 w'"
    by auto
  from transfer_property_same [OF w1 assms(3-6)] obtain xs' ys' l' where
    1: "owned_by w1 (owner l) = Some xs'" "count_list xs' (a_property a) = 0"
       "owned_by w1 (successful_bidder a) = Some ys'" "count_list ys' (a_property a) = 1"
       "lands w1 (a_property a) = Some l'" "owner l' = successful_bidder a"
    by blast
  from t 1(5,6) obtain l'' where "lands w' (a_property a) = Some l''" "owner l'' = successful_bidder a"
    by (cases "lands w' (a_property a)") (auto simp: same_titles_def dest!: spec [of _ "a_property a"])
  with 1 t show ?thesis by (simp add: same_titles_owned_by)
qed


lemma complete_transactions_same:
  "complete_transactions w as = Inr w' \<Longrightarrow> [a \<leftarrow> as. a_property a = P] = [a0] \<Longrightarrow>
   lands w P = Some l \<Longrightarrow> owned_by w (owner l) = Some xs \<Longrightarrow> count_list xs P = 1 \<Longrightarrow>
   owned_by w (successful_bidder a0) = Some ys \<Longrightarrow> count_list ys P = 0 \<Longrightarrow>
   \<exists>xs' ys' l'. owned_by w' (owner l) = Some xs' \<and> count_list xs' P = 0 \<and>
      owned_by w' (successful_bidder a0) = Some ys' \<and> count_list ys' P = 1 \<and>
      lands w' P = Some l' \<and> owner l' = successful_bidder a0"
proof (induction as arbitrary: w l xs ys)
  case Nil
  then show ?case by simp
next
  case (Cons a as)
  from Cons.prems(1) obtain w1 where w1: "complete_transaction w a = Inr w1"
    and rest: "complete_transactions w1 as = Inr w'"
    by (auto simp: bindE_Inr_iff)
  show ?case
  proof (cases "a_property a = P")
    case True
    with Cons.prems(2) have a: "a = a0" and none: "[a \<leftarrow> as. a_property a = P] = []"
      by simp_all
    from none have "\<forall>a\<in>set as. a_property a \<noteq> P"
      by (simp add: filter_empty_conv)
    from complete_transactions_other [OF rest this] have k: "keeps_title P w1 w'" .
    from complete_transaction_same [of w a0 w1 l xs ys] w1 Cons.prems(3-7) True a
    obtain xs1 ys1 l1 where
      1: "owned_by w1 (owner l) = Some xs1" "count_list xs1 P = 0"
         "owned_by w1 (successful_bidder a0) = Some ys1" "count_list ys1 P = 1"
         "lands w1 P = Some l1" "owner l1 = successful_bidder a0"
      by auto
    from keeps_title_owned_by [OF k 1(1)] keeps_title_owned_by [OF k 1(3)]
      keeps_title_owner [OF k 1(5)] 1
    show ?thesis by auto
  next
    case False
    with Cons.prems(2) have only: "[a \<leftarrow> as. a_property a = P] = [a0]" by simp
    from complete_transaction_other [OF w1 False] have k: "keeps_title P w w1" .
    from keeps_title_owner [OF k Cons.prems(3)] obtain l1 where
      l1: "lands w1 P = Some l1" "owner l1 = owner l" by blast
    from keeps_title_owned_by [OF k Cons.prems(4)] Cons.prems(5) obtain xs1 where
      xs1: "owned_by w1 (owner l1) = Some xs1" "count_list xs1 P = 1" by (auto simp: l1)
    from keeps_title_owned_by [OF k Cons.prems(6)] Cons.prems(7) obtain ys1 where
      ys1: "owned_by w1 (successful_bidder a0) = Some ys1" "count_list ys1 P = 0" by auto
    from Cons.IH [OF rest only l1(1) xs1 ys1] show ?thesis by (simp add: l1)
  qed
qed

text \<open>
  C2, as the code has it.  Let \<open>complete_transactions\<close> return on a list in which only this
  allocation sells the property.  If beforehand the property occurs exactly once in the
  \<open>properties_owned\<close> of its owner (the seller) and not in the buyer's, then afterwards it is in
  the buyer's \<open>properties_owned\<close>, it is not in the seller's, and its owner is the buyer.
\<close>

theorem ownership_transferred:
  assumes "complete_transactions w allocations = Inr w'"
    and "[a \<leftarrow> allocations. a_property a = a_property allocation] = [allocation]"
    and "lands w (a_property allocation) = Some l"
    and "owned_by w (owner l) = Some xs"
    and "count_list xs (a_property allocation) = 1"
    and "owned_by w (successful_bidder allocation) = Some ys"
    and "a_property allocation \<notin> set ys"
  shows "\<exists>xs' ys' l'.
      owned_by w' (successful_bidder allocation) = Some ys' \<and> a_property allocation \<in> set ys' \<and>
      owned_by w' (owner l) = Some xs' \<and> a_property allocation \<notin> set xs' \<and>
      lands w' (a_property allocation) = Some l' \<and> owner l' = successful_bidder allocation"
proof -
  from assms(7) have "count_list ys (a_property allocation) = 0"
    by (simp add: count_list_0_iff)
  from complete_transactions_same [OF assms(1-6) this] obtain xs' ys' l' where
    1: "owned_by w' (owner l) = Some xs'" "count_list xs' (a_property allocation) = 0"
       "owned_by w' (successful_bidder allocation) = Some ys'"
       "count_list ys' (a_property allocation) = 1"
       "lands w' (a_property allocation) = Some l'" "owner l' = successful_bidder allocation"
    by blast
  from 1(2) have "a_property allocation \<notin> set xs'" by (simp add: count_list_0_iff)
  moreover from 1(4) have "a_property allocation \<in> set ys'"
    by (metis count_list_0_iff zero_neq_one)
  ultimately show ?thesis using 1 by blast
qed

text \<open>The sale of parcel 5 in the example city.\<close>

lemmas market_defs = complete_transaction_def transfer_property_def get_properties_owned_def
  list_append_def list_remove_def handle_person_purchase_def handle_seller_departure_def
  handle_investor_purchase_def Person_remove_def remove_def dict_del_def remove_from_all_def
  workforce_remove_def owned_by_def ex_allocation_def ex_world_twice_def AList.delete_eq Let_def

lemma ex_complete: "\<exists>w'. complete_transactions ex_world [ex_allocation] = Inr w'"
  by (simp add: market_defs ex_defs)

text \<open>
  C2.  The claim asks only that the property be present in the seller's list.
  \<open>list.remove\<close> takes out the first occurrence: in \<open>ex_world_twice\<close> the seller's list names
  parcel 5 twice and the buyer's list is empty; after the settlement the parcel is in the
  buyer's list and still in the seller's.
\<close>

theorem property_listed_twice_stays:
  "owned_by ex_world_twice (Obj Person 2) = Some [5, 5] \<and>
   owned_by ex_world_twice (Obj Person 1) = Some [] \<and>
   owner ex_land = Obj Person 2 \<and>
   \<not> isl (complete_transactions ex_world_twice [ex_allocation]) \<and>
   owned_by (projr (complete_transactions ex_world_twice [ex_allocation])) (Obj Person 1) = Some [5] \<and>
   owned_by (projr (complete_transactions ex_world_twice [ex_allocation])) (Obj Person 2) = Some [5]"
  by (simp add: market_defs ex_defs)


theorem ownership_transferred_witness:
  "owned_by ex_world (Obj Person 2) = Some [5] \<and> owned_by ex_world (Obj Person 1) = Some [] \<and>
   owner ex_land = Obj Person 2 \<and>
   (\<exists>w' xs' ys' l'. complete_transactions ex_world [ex_allocation] = Inr w' \<and>
      owned_by w' (Obj Person 1) = Some ys' \<and> 5 \<in> set ys' \<and>
      owned_by w' (Obj Person 2) = Some xs' \<and> 5 \<notin> set xs' \<and>
      lands w' 5 = Some l' \<and> owner l' = Obj Person 1)"
proof -
  from ex_complete obtain w' where run: "complete_transactions ex_world [ex_allocation] = Inr w'" ..
  have only: "[a \<leftarrow> [ex_allocation]. a_property a = a_property ex_allocation] = [ex_allocation]"
    by simp
  have l: "lands ex_world (a_property ex_allocation) = Some ex_land"
    by (simp add: ex_allocation_def ex_world_def)
  have seller: "owned_by ex_world (owner ex_land) = Some [5]"
    by (simp add: market_defs ex_defs)
  have once: "count_list [5] (a_property ex_allocation) = 1"
    by (simp add: ex_allocation_def)
  have buyer: "owned_by ex_world (successful_bidder ex_allocation) = Some []"
    by (simp add: market_defs ex_defs)
  have fresh: "a_property ex_allocation \<notin> set []" by simp
  have o: "owner ex_land = Obj Person 2" by (simp add: ex_land_def)
  have b: "successful_bidder ex_allocation = Obj Person 1" "a_property ex_allocation = 5"
    by (simp_all add: ex_allocation_def)
  from ownership_transferred [OF run only l seller once buyer fresh] run seller buyer
  show ?thesis unfolding o b by blast
qed

section \<open>Clearing the auction\<close>

lemma Allocation_init_ok:
  "Allocation_init (Obj Land p) (Obj Person b) (FloatV x) (FloatV y) (FloatV z) =
     Inr \<lparr>a_property = p, successful_bidder = Obj Person b, highest_bid = x,
          second_highest_bid = y, final_price = z\<rparr>"
  by (simp add: Allocation_init_def)

text \<open>The bids in descending order of price, as \<open>list.sort\<close> leaves them.\<close>

lemma sorted_desc_head:
  assumes "sort_key (\<lambda>x. - price x) bs = h # t"
  shows "price h = Max (price ` set bs)"
proof -
  have "sorted (map (\<lambda>x. - price x) (h # t))"
    using sorted_sort_key [of "\<lambda>x. - price x" bs] by (simp add: assms)
  then have le: "\<forall>y\<in>set t. price y \<le> price h" by auto
  have set: "set bs = insert h (set t)"
    using set_sort [of "\<lambda>x. - price x" bs] by (simp add: assms)
  show ?thesis
  proof (rule sym, rule Max_eqI)
    show "finite (price ` set bs)" by simp
    show "price h \<in> price ` set bs" by (simp add: set)
    fix y assume "y \<in> price ` set bs"
    with le show "y \<le> price h" by (auto simp: set)
  qed
qed

lemma sorted_desc_winner:
  assumes "sort_key (\<lambda>x. - price x) bs = h # t"
  shows "hd [b \<leftarrow> bs. price b = price h] = h"
proof -
  have "[b \<leftarrow> sort_key (\<lambda>x. - price x) bs. - price b = - price h]
          = [b \<leftarrow> bs. - price b = - price h]"
    by (rule sort_key_stable)
  then have "h # [b \<leftarrow> t. price b = price h] = [b \<leftarrow> bs. price b = price h]"
    by (simp add: assms)
  then show "hd [b \<leftarrow> bs. price b = price h] = h"
    by (metis list.sel(1))
qed

lemma sorted_desc_second:
  assumes "sort_key (\<lambda>x. - price x) bs = h # s # t"
  shows "Max (set (remove1 (price h) (map price bs))) = price s"
proof -
  have "sorted (map (\<lambda>x. - price x) (h # s # t))"
    using sorted_sort_key [of "\<lambda>x. - price x" bs] by (simp add: assms)
  then have le: "\<forall>y\<in>set t. price y \<le> price s" by auto
  have "mset (map price bs) = mset (map price (sort_key (\<lambda>x. - price x) bs))"
    by simp
  then have "mset (map price bs) = mset (price h # map price (s # t))"
    by (simp add: assms)
  then have "mset (remove1 (price h) (map price bs)) = mset (map price (s # t))"
    by simp
  then have "set (remove1 (price h) (map price bs)) = set (map price (s # t))"
    by (rule mset_eq_setD)
  moreover have "Max (set (map price (s # t))) = price s"
  proof (rule Max_eqI)
    show "finite (set (map price (s # t)))" by simp
    show "price s \<in> set (map price (s # t))" by simp
    fix y assume "y \<in> set (map price (s # t))"
    with le show "y \<le> price s" by auto
  qed
  ultimately show ?thesis by simp
qed

text \<open>The loop of \<open>sell_homes\<close> computes the allocation the specification describes.\<close>

lemma allocate_spec:
  "allocate p bs = Inr (if bs = [] then [] else [spec_allocation p bs])"
proof (cases "sort_key (\<lambda>x. - price x) bs")
  case Nil
  then have "bs = []" by (metis length_sort length_0_conv)
  then show ?thesis by (simp add: allocate_def)
next
  case (Cons h t)
  then have ne: "bs \<noteq> []" by auto
  have len: "length t = length bs - 1"
    using length_sort [of "\<lambda>x. - price x" bs] by (simp add: Cons)
  show ?thesis
  proof (cases t)
    case Nil
    with len ne have "length bs = 1" by (cases bs) auto
    with ne show ?thesis
      by (simp add: allocate_def Let_def Cons Nil Allocation_init_ok spec_allocation_def
          sorted_desc_head [OF Cons, symmetric] sorted_desc_winner [OF Cons])
  next
    case (Cons s t')
    with len have "length bs > 1" by simp
    with ne show ?thesis
      using sorted_desc_second [of bs h s t'] \<open>sort_key (\<lambda>x. - price x) bs = h # t\<close>
      by (simp add: allocate_def Let_def Cons Allocation_init_ok spec_allocation_def
          sorted_desc_head [of bs h t, symmetric] sorted_desc_winner [of bs h t])
  qed
qed

lemma make_allocations_spec:
  "make_allocations book =
     Inr (map (\<lambda>(p, bs). spec_allocation p bs) [e \<leftarrow> book. snd e \<noteq> []])"
  by (induction book) (auto simp: allocate_spec)


text \<open>The keys of a dictionary are distinct: one entry, hence one allocation, per property.\<close>

lemma a_property_spec_allocation [simp]: "a_property (spec_allocation p bs) = p"
  by (simp add: spec_allocation_def Let_def)

lemma distinct_keys_entry:
  "distinct (map fst book) \<Longrightarrow> (p, bs) \<in> set book \<Longrightarrow> [e \<leftarrow> book. fst e = p] = [(p, bs)]"
proof (induction book)
  case Nil
  then show ?case by simp
next
  case (Cons e book)
  show ?case
  proof (cases "fst e = p")
    case True
    with Cons.prems have "e = (p, bs)" "\<forall>x\<in>set book. fst x \<noteq> p"
      by (auto simp: image_iff)
    then show ?thesis by (simp add: filter_empty_conv)
  next
    case False
    with Cons show ?thesis by auto
  qed
qed

lemma allocations_of_property:
  assumes "distinct (map fst book)" and "(p, bs) \<in> set book"
  shows "[a \<leftarrow> map (\<lambda>(p, bs). spec_allocation p bs) [e \<leftarrow> book. snd e \<noteq> []]. a_property a = p]
           = (if bs = [] then [] else [spec_allocation p bs])"
proof -
  have "[a \<leftarrow> map (\<lambda>(p, bs). spec_allocation p bs) [e \<leftarrow> book. snd e \<noteq> []]. a_property a = p]
          = map (\<lambda>(p, bs). spec_allocation p bs) [e \<leftarrow> [e \<leftarrow> book. fst e = p]. snd e \<noteq> []]"
    by (induction book) auto
  then show ?thesis
    by (simp add: distinct_keys_entry [OF assms])
qed

text \<open>
  C1.  The loop of \<open>sell_homes\<close> always yields a list of allocations.  For every property of
  the bid book with at least one bid that list holds exactly one allocation for the property,
  and it is the one of the specification: the successful bidder is the bidder of the
  highest-price bid (the first submitted at that price), highest bid and final price are
  the highest price, and the second-highest bid is the highest price among the remaining
  bids, or 0 for a single bid.  A property with an empty list of bids has no allocation, and
  no allocation is for a property outside the book.  Whenever \<open>sell_homes\<close> returns (the
  settlement of the allocations may raise), it returns this list and has emptied the book.
\<close>

theorem sell_homes_allocations:
  assumes "distinct (map fst (bids w))"
  shows "\<exists>allocations.
     make_allocations (bids w) = Inr allocations \<and>
     (\<forall>p bs. (p, bs) \<in> set (bids w) \<longrightarrow>
        [a \<leftarrow> allocations. a_property a = p] = (if bs = [] then [] else [spec_allocation p bs])) \<and>
     (\<forall>a\<in>set allocations. \<exists>bs. (a_property a, bs) \<in> set (bids w)) \<and>
     (\<forall>r. sell_homes w = Inr r \<longrightarrow> fst r = allocations \<and> bids (snd r) = [])"
proof -
  let ?as = "map (\<lambda>(p, bs). spec_allocation p bs) [e \<leftarrow> bids w. snd e \<noteq> []]"
  have 1: "make_allocations (bids w) = Inr ?as" by (rule make_allocations_spec)
  have 2: "\<forall>p bs. (p, bs) \<in> set (bids w) \<longrightarrow>
        [a \<leftarrow> ?as. a_property a = p] = (if bs = [] then [] else [spec_allocation p bs])"
    using allocations_of_property [OF assms] by blast
  have 3: "\<forall>a\<in>set ?as. \<exists>bs. (a_property a, bs) \<in> set (bids w)"
    by auto
  have 4: "\<forall>r. sell_homes w = Inr r \<longrightarrow> fst r = ?as \<and> bids (snd r) = []"
    by (auto simp: sell_homes_def 1 bindE_Inr_iff)
  from 1 2 3 4 show ?thesis by blast
qed


text \<open>The auction of the example: bids of 100, 150 and 120 on parcel 5, none on parcel 6.\<close>

lemma ex_spec_allocation:
  "spec_allocation 5 ex_bids = \<lparr>a_property = 5, successful_bidder = Obj Person 3,
      highest_bid = 150, second_highest_bid = 120, final_price = 150\<rparr>"
  by (simp add: spec_allocation_def ex_bids_def)

lemma ex_sell_homes: "\<exists>r. sell_homes ex_world_auction = Inr r"
  by (simp add: sell_homes_def make_allocations_spec ex_spec_allocation ex_world_auction_def
      market_defs ex_defs ex_person3_def ex_person4_def)

theorem sell_homes_allocations_witness:
  "distinct (map fst (bids ex_world_auction)) \<and>
   (5, ex_bids) \<in> set (bids ex_world_auction) \<and> (6, []) \<in> set (bids ex_world_auction) \<and>
   (\<exists>r. sell_homes ex_world_auction = Inr r \<and>
      [a \<leftarrow> fst r. a_property a = 5] = [\<lparr>a_property = 5, successful_bidder = Obj Person 3,
          highest_bid = 150, second_highest_bid = 120, final_price = 150\<rparr>] \<and>
      [a \<leftarrow> fst r. a_property a = 6] = [] \<and> bids (snd r) = [])"
proof -
  have d: "distinct (map fst (bids ex_world_auction))"
    by (simp add: ex_world_auction_def)
  have five: "(5, ex_bids) \<in> set (bids ex_world_auction)"
    and six: "(6, []) \<in> set (bids ex_world_auction)"
    by (simp_all add: ex_world_auction_def)
  have ne: "ex_bids \<noteq> []" by (simp add: ex_bids_def)
  from ex_sell_homes obtain r where r: "sell_homes ex_world_auction = Inr r" ..
  from sell_homes_allocations [OF d] obtain allocations where
    a: "\<forall>p bs. (p, bs) \<in> set (bids ex_world_auction) \<longrightarrow>
        [a \<leftarrow> allocations. a_property a = p] = (if bs = [] then [] else [spec_allocation p bs])"
    and s: "\<forall>r. sell_homes ex_world_auction = Inr r \<longrightarrow> fst r = allocations \<and> bids (snd r) = []"
    by blast
  from s r have fst: "fst r = allocations" and cleared: "bids (snd r) = []" by simp_all
  from a five ne have "[a \<leftarrow> allocations. a_property a = 5] = [spec_allocation 5 ex_bids]"
    by (metis (full_types))
  moreover from a six have "[a \<leftarrow> allocations. a_property a = 6] = []"
    by (metis (full_types))
  ultimately show ?thesis
    using d five six r cleared by (auto simp: fst ex_spec_allocation)
qed

end
